theory Spec2Isabelle
  imports Complex_Main
begin

section \<open>Python values used by \<^verbatim>\<open>spherapy/util/epoch_u.py\<close>\<close>

text \<open>
  The module converts between TLE epoch strings, calendar datetimes and SGP4 epochs,
  matches timestamps and reads TLE records from a text file. Its functions are modelled
  one by one; an exception is a value \<open>Inl e\<close> of the result type.
\<close>

datatype error = ValueError | OverflowError | IndexError | TypeError | OSError

subsection \<open>Floats\<close>

text \<open>
  A finite Python float is an IEEE binary64 number and is represented by its exact rational
  value. \<open>fl q\<close> is the binary64 number nearest to \<open>q\<close> (ties to the even
  significand), which is what a correctly rounded operation returns; the sign of zero is not
  represented. \<open>fl\<close> does not check the upper end of the exponent range: the callers
  that can leave it (\<open>py_float\<close>) compare against \<open>2 ^ 1024\<close> themselves.
\<close>

function bit_length :: "int \<Rightarrow> int" where
  "bit_length n = (if n \<le> 0 then 0 else 1 + bit_length (n div 2))"
  by pat_completeness auto
termination
  by (relation "measure nat") auto

declare bit_length.simps [simp del]

definition two_pow :: "int \<Rightarrow> rat" where
  "two_pow e = (if 0 \<le> e then 2 ^ nat e else 1 / 2 ^ nat (- e))"

definition ilog2 :: "rat \<Rightarrow> int" where
  \<comment> \<open>\<open>\<lfloor>log\<^sub>2 q\<rfloor>\<close> for \<open>q > 0\<close>\<close>
  "ilog2 q =
     (let (a, b) = quotient_of q;
          k = bit_length a - bit_length b
      in if two_pow k \<le> q then k else k - 1)"

definition round_half_even :: "rat \<Rightarrow> int" where
  "round_half_even q =
     (let f = \<lfloor>q\<rfloor>; r = q - of_int f
      in if r < 1 / 2 then f else if 1 / 2 < r then f + 1 else if even f then f else f + 1)"

definition fl :: "rat \<Rightarrow> rat" where
  "fl q =
     (if q = 0 then 0
      else let e = max (ilog2 \<bar>q\<bar> - 52) (- 1074);
               m = round_half_even (\<bar>q\<bar> / two_pow e)
           in sgn q * of_int m * two_pow e)"

subsection \<open>\<^verbatim>\<open>datetime.timedelta\<close>\<close>

record timedelta =
  days :: int
  seconds :: int
  microseconds :: int

definition normalize_pair :: "int \<Rightarrow> int \<Rightarrow> int \<Rightarrow> int \<times> int" where
  "normalize_pair hi lo factor = (hi + lo div factor, lo mod factor)"

definition new_delta :: "int \<Rightarrow> int \<Rightarrow> int \<Rightarrow> error + timedelta" where
  \<comment> \<open>\<^verbatim>\<open>timedelta(days, seconds, microseconds)\<close> on integers: normalise, then check the day range\<close>
  "new_delta d s us =
     (let (s1, us1) = normalize_pair s us 1000000;
          (d1, s2) = normalize_pair d s1 86400
      in if - 999999999 \<le> d1 \<and> d1 \<le> 999999999
         then Inr \<lparr>days = d1, seconds = s2, microseconds = us1\<rparr>
         else Inl OverflowError)"

subsection \<open>\<^verbatim>\<open>datetime.datetime\<close>\<close>

text \<open>
  A datetime is its calendar fields and an optional \<^verbatim>\<open>tzinfo\<close>. The module only
  passes \<^verbatim>\<open>tzinfo\<close> objects on, so their type is a parameter; \<open>None\<close> is a naive
  datetime. The \<^verbatim>\<open>fold\<close> attribute plays no part here and is left out.
\<close>

record 'tz datetime =
  year :: int
  month :: int
  day :: int
  hour :: int
  minute :: int
  second :: int
  microsecond :: int
  tzinfo :: "'tz option"

definition is_leap :: "int \<Rightarrow> bool" where
  "is_leap y = (y mod 4 = 0 \<and> (y mod 100 \<noteq> 0 \<or> y mod 400 = 0))"

definition days_before_year :: "int \<Rightarrow> int" where
  "days_before_year y = (let y1 = y - 1 in y1 * 365 + y1 div 4 - y1 div 100 + y1 div 400)"

definition days_in_month :: "int \<Rightarrow> int \<Rightarrow> int" where
  "days_in_month y m =
     (if m = 2 \<and> is_leap y then 29
      else [31, 28, 31, 30, 31, 30, 31, 31, 30, 31, 30, 31] ! nat (m - 1))"

definition days_before_month :: "int \<Rightarrow> int \<Rightarrow> int" where
  "days_before_month y m =
     [0, 31, 59, 90, 120, 151, 181, 212, 243, 273, 304, 334] ! nat (m - 1)
       + (if 2 < m \<and> is_leap y then 1 else 0)"

definition ymd2ord :: "int \<Rightarrow> int \<Rightarrow> int \<Rightarrow> int" where
  "ymd2ord y m d = days_before_year y + days_before_month y m + d"

definition valid_datetime :: "'tz datetime \<Rightarrow> bool" where
  \<comment> \<open>the field ranges the constructor enforces\<close>
  "valid_datetime t =
     (1 \<le> year t \<and> year t \<le> 9999 \<and> 1 \<le> month t \<and> month t \<le> 12 \<and>
      1 \<le> day t \<and> day t \<le> days_in_month (year t) (month t) \<and>
      0 \<le> hour t \<and> hour t \<le> 23 \<and> 0 \<le> minute t \<and> minute t \<le> 59 \<and>
      0 \<le> second t \<and> second t \<le> 59 \<and> 0 \<le> microsecond t \<and> microsecond t \<le> 999999)"

definition new_datetime ::
  "int \<Rightarrow> int \<Rightarrow> int \<Rightarrow> int \<Rightarrow> int \<Rightarrow> int \<Rightarrow> int \<Rightarrow> 'tz option \<Rightarrow> error + 'tz datetime" where
  \<comment> \<open>\<^verbatim>\<open>datetime(year, month, day, hour, minute, second, microsecond, tzinfo=tz)\<close>\<close>
  "new_datetime y mo d h mi s us tz =
     (let t = \<lparr>year = y, month = mo, day = d, hour = h, minute = mi, second = s,
                microsecond = us, tzinfo = tz\<rparr>
      in if valid_datetime t then Inr t else Inl ValueError)"

definition toordinal :: "'tz datetime \<Rightarrow> int" where
  "toordinal t = ymd2ord (year t) (month t) (day t)"

definition datetime_subtract :: "'tz datetime \<Rightarrow> 'tz datetime \<Rightarrow> error + timedelta" where
  \<comment> \<open>\<^verbatim>\<open>left - right\<close> for two datetimes carrying the same \<^verbatim>\<open>tzinfo\<close> object (or both
      naive): the fields are subtracted and no offset is applied. The module never subtracts
      datetimes of different zones; that case is a \<^verbatim>\<open>TypeError\<close> here, as it is in Python
      when exactly one side is naive.\<close>
  "datetime_subtract left right =
     (if tzinfo left = tzinfo right
      then new_delta (toordinal left - toordinal right)
             ((hour left * 3600 + minute left * 60 + second left)
                - (hour right * 3600 + minute right * 60 + second right))
             (microsecond left - microsecond right)
      else Inl TypeError)"

section \<open>\<^verbatim>\<open>datetime2sgp4epoch\<close>\<close>

definition datetime2sgp4epoch :: "'tz datetime \<Rightarrow> error + rat" where
  "datetime2sgp4epoch date =
     (case new_datetime 1949 12 31 0 0 0 0 (tzinfo date) of
        Inl e \<Rightarrow> Inl e
      | Inr sgp4start \<Rightarrow>
          (case datetime_subtract date sgp4start of
             Inl e \<Rightarrow> Inl e
           | Inr delta \<Rightarrow>
               Inr (fl (of_int (days delta) + fl (of_int (seconds delta) / 86400)))))"

subsection \<open>Elapsed time, as the specification words it\<close>

text \<open>
  The position of a datetime's wall-clock reading on the proleptic Gregorian time line, in
  microseconds, and the time elapsed since the SGP4 reference instant 1949-12-31T00:00:00
  carrying the same \<^verbatim>\<open>tzinfo\<close>. These two follow the wording of the specification and
  are what the results of \<open>datetime2sgp4epoch\<close> are compared with.
\<close>

definition wall_microseconds :: "'tz datetime \<Rightarrow> int" where
  "wall_microseconds t =
     ((toordinal t * 24 + hour t) * 60 + minute t) * 60000000 + second t * 1000000 + microsecond t"

definition sgp4_reference :: "'tz option \<Rightarrow> 'tz datetime" where
  "sgp4_reference tz = \<lparr>year = 1949, month = 12, day = 31, hour = 0, minute = 0, second = 0,
     microsecond = 0, tzinfo = tz\<rparr>"

definition elapsed_microseconds :: "'tz datetime \<Rightarrow> int" where
  "elapsed_microseconds d = wall_microseconds d - wall_microseconds (sgp4_reference (tzinfo d))"

section \<open>Text to numbers: \<^verbatim>\<open>int(str)\<close> and \<^verbatim>\<open>float(str)\<close>\<close>

text \<open>
  A \<open>string\<close> stands for a Python \<^verbatim>\<open>str\<close> of code points below 256. Both conversions
  first drop white space at both ends (tab, line feed, vertical tab, form feed, carriage
  return, space, and the two Latin-1 spaces NEL and NBSP), accept one sign, and accept an
  underscore only between two digits. Digits are the ASCII digits.
\<close>

definition is_space :: "char \<Rightarrow> bool" where
  "is_space c = (c \<in> {CHR 0x09, CHR 0x0A, CHR 0x0B, CHR 0x0C, CHR 0x0D, CHR 0x20, CHR 0x85, CHR 0xA0})"

definition is_digit :: "char \<Rightarrow> bool" where
  "is_digit c = (c \<in> set ''0123456789'')"

definition digit_value :: "char \<Rightarrow> int" where
  "digit_value c = int (of_char c) - 48"

definition digits_value :: "string \<Rightarrow> int" where
  "digits_value ds = foldl (\<lambda>a c. 10 * a + digit_value c) 0 ds"

definition py_strip :: "string \<Rightarrow> string" where
  "py_strip s = rev (dropWhile is_space (rev (dropWhile is_space s)))"

fun strip_underscores :: "char \<Rightarrow> string \<Rightarrow> string option" where
  "strip_underscores prev [] = (if prev = CHR ''_'' then None else Some [])"
| "strip_underscores prev (c # cs) =
     (if c = CHR ''_''
      then (if is_digit prev then strip_underscores c cs else None)
      else if prev = CHR ''_'' \<and> \<not> is_digit c then None
      else map_option ((#) c) (strip_underscores c cs))"

definition split_sign :: "string \<Rightarrow> bool \<times> string" where
  \<comment> \<open>an optional leading sign; the flag says that it was a minus\<close>
  "split_sign s =
     (case s of
        [] \<Rightarrow> (False, [])
      | c # cs \<Rightarrow> if c = CHR ''-'' then (True, cs) else if c = CHR ''+'' then (False, cs)
                 else (False, s))"

definition py_int :: "string \<Rightarrow> error + int" where
  \<comment> \<open>\<^verbatim>\<open>int(s)\<close> in base 10. (The interpreter's limit of 4300 digits is not modelled; the
      module only converts two characters.)\<close>
  "py_int s =
     (let (neg, body) = split_sign (py_strip s)
      in case strip_underscores (CHR 0x00) body of
           None \<Rightarrow> Inl ValueError
         | Some ds \<Rightarrow>
             if ds \<noteq> [] \<and> list_all is_digit ds
             then Inr (if neg then - digits_value ds else digits_value ds)
             else Inl ValueError)"

datatype pyfloat = Finite rat | PosInf | NegInf | NaN

definition lower_ascii :: "char \<Rightarrow> char" where
  "lower_ascii c =
     (let n = of_char c :: nat in if 65 \<le> n \<and> n \<le> 90 then char_of (n + 32) else c)"

definition ten_pow :: "int \<Rightarrow> rat" where
  "ten_pow e = (if 0 \<le> e then 10 ^ nat e else 1 / 10 ^ nat (- e))"

definition parse_decimal :: "string \<Rightarrow> rat option" where
  \<comment> \<open>digits, an optional point and digits (at least one digit in all), an optional exponent;
      the value is exact\<close>
  "parse_decimal s =
     (let ip = takeWhile is_digit s;
          r1 = dropWhile is_digit s;
          (fp, r2) = (case r1 of
                        [] \<Rightarrow> ([], [])
                      | c # cs \<Rightarrow> if c = CHR ''.''
                                 then (takeWhile is_digit cs, dropWhile is_digit cs)
                                 else ([], r1));
          m = of_int (digits_value (ip @ fp))
      in if ip = [] \<and> fp = [] then None
         else case r2 of
                [] \<Rightarrow> Some (m * ten_pow (- int (length fp)))
              | c # cs \<Rightarrow>
                  if c = CHR ''e'' \<or> c = CHR ''E''
                  then (let (neg, ds) = split_sign cs
                        in if ds \<noteq> [] \<and> list_all is_digit ds
                           then Some (m * ten_pow ((if neg then - digits_value ds
                                                    else digits_value ds) - int (length fp)))
                           else None)
                  else None)"

definition to_binary64 :: "rat \<Rightarrow> pyfloat" where
  \<comment> \<open>round to the nearest binary64 number; beyond the largest one the result is an infinity\<close>
  "to_binary64 q =
     (let r = fl q
      in if 2 ^ 1024 \<le> r then PosInf else if r \<le> - (2 ^ 1024) then NegInf else Finite r)"

definition py_float :: "string \<Rightarrow> error + pyfloat" where
  \<comment> \<open>\<^verbatim>\<open>float(s)\<close>\<close>
  "py_float s =
     (case strip_underscores (CHR 0x00) (py_strip s) of
        None \<Rightarrow> Inl ValueError
      | Some t \<Rightarrow>
          (let (neg, body) = split_sign t;
               word = map lower_ascii body
           in if word = ''inf'' \<or> word = ''infinity'' then Inr (if neg then NegInf else PosInf)
              else if word = ''nan'' then Inr NaN
              else case parse_decimal body of
                     None \<Rightarrow> Inl ValueError
                   | Some q \<Rightarrow> Inr (to_binary64 (if neg then - q else q))))"

section \<open>Datetime arithmetic\<close>

definition and_then :: "error + 'a \<Rightarrow> ('a \<Rightarrow> error + 'b) \<Rightarrow> error + 'b" where
  \<comment> \<open>run the next statement unless an exception is already under way\<close>
  "and_then m f = (case m of Inl e \<Rightarrow> Inl e | Inr x \<Rightarrow> f x)"

definition ord2ymd :: "int \<Rightarrow> int \<times> int \<times> int" where
  \<comment> \<open>the calendar date of a proleptic Gregorian ordinal, day 1 being 0001-01-01\<close>
  "ord2ymd ordinal =
     (let n = ordinal - 1;
          n400 = n div 146097; n = n mod 146097;
          n100 = n div 36524; n = n mod 36524;
          n4 = n div 1461; n = n mod 1461;
          n1 = n div 365; n = n mod 365;
          y = n400 * 400 + 1 + n100 * 100 + n4 * 4 + n1
      in if n1 = 4 \<or> n100 = 4 then (y - 1, 12, 31)
         else let leapyear = (n1 = 3 \<and> (n4 \<noteq> 24 \<or> n100 = 3));
                  m = (n + 50) div 32;
                  preceding = [0, 31, 59, 90, 120, 151, 181, 212, 243, 273, 304, 334] ! nat (m - 1)
                                + (if 2 < m \<and> leapyear then 1 else 0);
                  (m, preceding) =
                     (if n < preceding
                      then (m - 1,
                            preceding - ([31, 28, 31, 30, 31, 30, 31, 31, 30, 31, 30, 31] ! nat (m - 2)
                                          + (if m - 1 = 2 \<and> leapyear then 1 else 0)))
                      else (m, preceding))
              in (y, m, n - preceding + 1))"

definition timedelta_days_int :: "int \<Rightarrow> error + timedelta" where
  \<comment> \<open>\<^verbatim>\<open>timedelta(days=n)\<close> for an integer\<close>
  "timedelta_days_int n = new_delta n 0 0"

definition timedelta_days_float :: "pyfloat \<Rightarrow> error + timedelta" where
  \<comment> \<open>\<^verbatim>\<open>timedelta(days=f)\<close> for a float: the whole days are converted exactly, the fraction of
      a day is multiplied by the microseconds of a day in binary64 and rounded to a whole
      microsecond, halves to even\<close>
  "timedelta_days_float f =
     (case f of
        NaN \<Rightarrow> Inl ValueError
      | PosInf \<Rightarrow> Inl OverflowError
      | NegInf \<Rightarrow> Inl OverflowError
      | Finite q \<Rightarrow>
          (let intpart = (if 0 \<le> q then \<lfloor>q\<rfloor> else \<lceil>q\<rceil>);
               fracpart = q - of_int intpart
           in new_delta 0 0
                (intpart * 86400000000 + round_half_even (fl (86400000000 * fracpart)))))"

definition add_datetime_timedelta :: "'tz datetime \<Rightarrow> timedelta \<Rightarrow> int \<Rightarrow> error + 'tz datetime" where
  \<comment> \<open>\<^verbatim>\<open>date + delta\<close> (factor 1) and \<^verbatim>\<open>date - delta\<close> (factor -1): add field by field and
      carry. The day is carried through the ordinal of the first of the month, which is the
      general case of the library's date normalisation (its two shortcuts, for a day that is
      one off, give the same date).\<close>
  "add_datetime_timedelta date delta factor =
     (let (s, us) = normalize_pair (second date + seconds delta * factor)
                      (microsecond date + microseconds delta * factor) 1000000;
          (mi, s) = normalize_pair (minute date) s 60;
          (h, mi) = normalize_pair (hour date) mi 60;
          (d, h) = normalize_pair (day date + days delta * factor) h 24;
          ordinal = ymd2ord (year date) (month date) 1 + d - 1
      in if ordinal < 1 \<or> 3652059 < ordinal then Inl OverflowError
         else let (y, m, dd) = ord2ymd ordinal
              in Inr \<lparr>year = y, month = m, day = dd, hour = h, minute = mi, second = s,
                     microsecond = us, tzinfo = tzinfo date\<rparr>)"

section \<open>\<^verbatim>\<open>epoch2datetime\<close>\<close>

datatype timezone = UTC | FixedOffset int

text \<open>
  The argument is the epoch in its string form: the source replaces an argument that is not
  a \<^verbatim>\<open>str\<close> by \<^verbatim>\<open>str(epoch_str)\<close> before anything else.
\<close>

definition epoch2datetime :: "string \<Rightarrow> error + timezone datetime" where
  "epoch2datetime epoch_str =
     and_then (py_int (take 2 epoch_str)) (\<lambda>year.
     let year = (if year < 50 then year + 2000 else year + 1900)
     in and_then (py_float (drop 2 epoch_str)) (\<lambda>fractional_day_of_year.
        and_then (new_datetime year 1 1 0 0 0 0 (Some UTC)) (\<lambda>base.
        and_then (timedelta_days_float fractional_day_of_year) (\<lambda>delta.
        and_then (add_datetime_timedelta base delta 1) (\<lambda>shifted.
        and_then (timedelta_days_int 1) (\<lambda>one_day.
        add_datetime_timedelta shifted one_day (- 1)))))))"

definition epochEarlierThan :: "string \<Rightarrow> string \<Rightarrow> error + bool" where
  "epochEarlierThan epoch_a epoch_b =
     and_then (epoch2datetime epoch_a) (\<lambda>datetime_a.
     and_then (epoch2datetime epoch_b) (\<lambda>datetime_b.
     Inr (wall_microseconds datetime_a < wall_microseconds datetime_b)))"

definition epochLaterThan :: "string \<Rightarrow> string \<Rightarrow> error + bool" where
  "epochLaterThan epoch_a epoch_b =
     and_then (epoch2datetime epoch_a) (\<lambda>datetime_a.
     and_then (epoch2datetime epoch_b) (\<lambda>datetime_b.
     Inr (wall_microseconds datetime_b < wall_microseconds datetime_a)))"

text \<open>
  The century rule and the first instant of a year, named for the statements about
  \<open>epoch2datetime\<close>.
\<close>

definition pivot_year :: "int \<Rightarrow> int" where
  "pivot_year y = (if y < 50 then y + 2000 else y + 1900)"

definition january_first :: "int \<Rightarrow> timezone datetime" where
  "january_first y = \<lparr>year = y, month = 1, day = 1, hour = 0, minute = 0, second = 0,
     microsecond = 0, tzinfo = Some UTC\<rparr>"

section \<open>The TLE file functions\<close>

text \<open>
  \<^verbatim>\<open>elements_u.split3LELineIntoFields\<close> belongs to the package but its source is not part
  of what is verified here, so the three functions take it as the parameter \<open>split\<close>: a
  function from a line to the mapping it returns, or to the exception it raises. Of that
  mapping the module reads the keys \<^verbatim>\<open>'fields'\<close> (the record field \<open>fields_of\<close>) and
  \<^verbatim>\<open>'line_str'\<close>.

  The file system gives the state of every path. At a path there is no file
  (\<open>Missing\<close>) or there is one (\<open>Present\<close>). Where there is none, \<^verbatim>\<open>stat\<close> fails;
  \<^verbatim>\<open>Path.exists\<close> answers \<^verbatim>\<open>False\<close> for the failures it ignores (no such file or
  directory, \<open>Missing None\<close>) and passes on every other \<^verbatim>\<open>OSError\<close>, such as a name that
  is too long or a directory that may not be searched (\<open>Missing (Some e)\<close>). Where there is
  a file, opening and reading it gives the list of lines that \<^verbatim>\<open>readlines()\<close> returns, each
  line with its terminator, or raises (\<open>Present (Inl e)\<close>: a directory, a file that may
  not be read or that does not decode).
\<close>

record split_line =
  fields_of :: "string list"
  line_str :: string

type_synonym splitter = "string \<Rightarrow> error + split_line"

datatype path_state = Missing "error option" | Present "error + string list"

type_synonym filesystem = "string \<Rightarrow> path_state"

definition path_exists :: "filesystem \<Rightarrow> string \<Rightarrow> error + bool" where
  \<comment> \<open>\<^verbatim>\<open>tle_path.exists()\<close>\<close>
  "path_exists fs path =
     (case fs path of
        Missing None \<Rightarrow> Inr False
      | Missing (Some e) \<Rightarrow> Inl e
      | Present r \<Rightarrow> Inr True)"

definition readlines :: "filesystem \<Rightarrow> string \<Rightarrow> error + string list" where
  \<comment> \<open>\<^verbatim>\<open>with tle_path.open('r') as fp: lines = fp.readlines()\<close>\<close>
  "readlines fs path = (case fs path of Missing e \<Rightarrow> Inl OSError | Present r \<Rightarrow> r)"

definition list_getitem :: "'a list \<Rightarrow> int \<Rightarrow> error + 'a" where
  \<comment> \<open>\<^verbatim>\<open>xs[i]\<close>: a negative index counts from the end, an index outside the list raises\<close>
  "list_getitem xs i =
     (let n = int (length xs); j = (if i < 0 then i + n else i)
      in if 0 \<le> j \<and> j < n then Inr (xs ! nat j) else Inl IndexError)"

definition getStoredEpochs ::
  "splitter \<Rightarrow> filesystem \<Rightarrow> string
     \<Rightarrow> error + (timezone datetime \<times> timezone datetime) option" where
  "getStoredEpochs split fs tle_path =
     and_then (path_exists fs tle_path) (\<lambda>exists.
     if \<not> exists then Inr None
     else and_then (readlines fs tle_path) (\<lambda>lines.
          and_then (list_getitem lines 1) (\<lambda>line.
          and_then (split line) (\<lambda>first_tle_line_1.
          and_then (list_getitem lines (- 2)) (\<lambda>line.
          and_then (split line) (\<lambda>last_tle_line_1.
          and_then (list_getitem (fields_of first_tle_line_1) 3) (\<lambda>epoch.
          and_then (epoch2datetime epoch) (\<lambda>first_epoch_dt.
          and_then (list_getitem (fields_of last_tle_line_1) 3) (\<lambda>epoch.
          and_then (epoch2datetime epoch) (\<lambda>last_epoch_dt.
          Inr (Some (first_epoch_dt, last_epoch_dt))))))))))))"

definition py_range :: "int \<Rightarrow> int \<Rightarrow> int \<Rightarrow> int list" where
  \<comment> \<open>\<^verbatim>\<open>range(start, stop, step)\<close> for a positive step\<close>
  "py_range start stop step =
     map (\<lambda>k. start + step * int k) [0 ..< nat ((stop - start + step - 1) div step)]"

fun epochs_loop ::
  "splitter \<Rightarrow> string list \<Rightarrow> int list \<Rightarrow> timezone datetime list
     \<Rightarrow> error + timezone datetime list" where
  "epochs_loop split lines [] tle_epochs_dt = Inr tle_epochs_dt"
| "epochs_loop split lines (ii # rest) tle_epochs_dt =
     and_then (list_getitem lines ii) (\<lambda>line.
     and_then (split line) (\<lambda>tle_line.
     and_then (list_getitem (fields_of tle_line) 3) (\<lambda>epoch.
     and_then (epoch2datetime epoch) (\<lambda>epoch_dt.
     epochs_loop split lines rest (tle_epochs_dt @ [epoch_dt])))))"

definition getAllStoredEpochs ::
  "splitter \<Rightarrow> filesystem \<Rightarrow> string \<Rightarrow> error + timezone datetime list option" where
  "getAllStoredEpochs split fs tle_path =
     and_then (path_exists fs tle_path) (\<lambda>exists.
     if \<not> exists then Inr None
     else and_then (readlines fs tle_path) (\<lambda>lines.
          and_then (epochs_loop split lines (py_range 1 (int (length lines)) 3) [])
            (\<lambda>tle_epochs_dt. Inr (Some tle_epochs_dt))))"

datatype idx_arg = Single int | Many "int list"

datatype tle_data = RawText string | FieldDict "(int \<times> split_line) list"

fun tles_loop ::
  "splitter \<Rightarrow> string list \<Rightarrow> bool \<Rightarrow> int list \<Rightarrow> tle_data list \<Rightarrow> error + tle_data list" where
  "tles_loop split lines string_only [] tles = Inr tles"
| "tles_loop split lines string_only (idx # rest) tles =
     and_then (list_getitem lines (idx * 3 + 0)) (\<lambda>line.
     and_then (split line) (\<lambda>tle_line_0.
     and_then (list_getitem lines (idx * 3 + 1)) (\<lambda>line.
     and_then (split line) (\<lambda>tle_line_1.
     and_then (list_getitem lines (idx * 3 + 2)) (\<lambda>line.
     and_then (split line) (\<lambda>tle_line_2.
     let tle_data =
           (if string_only
            then RawText (line_str tle_line_0 @ line_str tle_line_1 @ line_str tle_line_2)
            else FieldDict [(0, tle_line_0), (1, tle_line_1), (2, tle_line_2)])
     in tles_loop split lines string_only rest (tles @ [tle_data])))))))"

definition getStoredTLEByIdx ::
  "splitter \<Rightarrow> filesystem \<Rightarrow> string \<Rightarrow> idx_arg \<Rightarrow> bool \<Rightarrow> error + tle_data list option" where
  "getStoredTLEByIdx split fs tle_path idx_list string_only =
     and_then (path_exists fs tle_path) (\<lambda>exists.
     if \<not> exists then Inr None
     else let idx_list = (case idx_list of Single idx \<Rightarrow> [idx] | Many l \<Rightarrow> l)
          in and_then (readlines fs tle_path) (\<lambda>lines.
             and_then (tles_loop split lines string_only idx_list [])
               (\<lambda>tles. Inr (Some tles))))"

subsection \<open>The lines of a record\<close>

text \<open>
  The statements about the three functions speak of the split of a file line and of the
  three lines of a record. \<open>record_at\<close> is the expression
  \<^verbatim>\<open>split3LELineIntoFields(lines[i])\<close> and \<open>record_lines\<close> the three of them that the
  loop of \<^verbatim>\<open>getStoredTLEByIdx\<close> evaluates for a record index, in its order.
\<close>

definition record_at :: "splitter \<Rightarrow> string list \<Rightarrow> int \<Rightarrow> error + split_line" where
  "record_at split lines i = and_then (list_getitem lines i) split"

definition record_lines ::
  "splitter \<Rightarrow> string list \<Rightarrow> int \<Rightarrow> error + split_line \<times> split_line \<times> split_line" where
  "record_lines split lines k =
     and_then (record_at split lines (k * 3 + 0)) (\<lambda>tle_line_0.
     and_then (record_at split lines (k * 3 + 1)) (\<lambda>tle_line_1.
     and_then (record_at split lines (k * 3 + 2)) (\<lambda>tle_line_2.
     Inr (tle_line_0, tle_line_1, tle_line_2))))"

definition record_text :: "split_line \<times> split_line \<times> split_line \<Rightarrow> tle_data" where
  "record_text r = (case r of (a, b, c) \<Rightarrow> RawText (line_str a @ line_str b @ line_str c))"

definition record_dict :: "split_line \<times> split_line \<times> split_line \<Rightarrow> tle_data" where
  "record_dict r = (case r of (a, b, c) \<Rightarrow> FieldDict [(0, a), (1, b), (2, c)])"

subsection \<open>A line splitter for worked examples\<close>

text \<open>
  Modelled from the spec: \<^verbatim>\<open>split3LELineIntoFields\<close> is missing from the sources. The
  specification describes its result as the ordered tokens of the line under \<open>fields\<close>,
  with the epoch at position 3 of a line 1, and the text of the line, terminator included,
  under \<open>line_str\<close>. \<open>split_on_spaces\<close> cuts a line at runs of white space and never
  raises. It is used for worked examples only; every general statement below holds for an
  arbitrary \<open>split\<close>.
\<close>

fun tokens :: "string \<Rightarrow> string \<Rightarrow> string list" where
  "tokens cur [] = (if cur = [] then [] else [cur])"
| "tokens cur (c # cs) =
     (if is_space c then (if cur = [] then tokens [] cs else cur # tokens [] cs)
      else tokens (cur @ [c]) cs)"

definition split_on_spaces :: splitter where
  "split_on_spaces line = Inr \<lparr>fields_of = tokens [] line, line_str = line\<rparr>"

definition one_file :: "string \<Rightarrow> string list \<Rightarrow> filesystem" where
  \<comment> \<open>a file system with one file, which can be read\<close>
  "one_file path lines = (\<lambda>p. if p = path then Present (Inr lines) else Missing None)"

section \<open>\<^verbatim>\<open>findClosestDatetimeIndices\<close>\<close>

text \<open>
  The arrays are one-dimensional object arrays, modelled as lists; \<open>timestamp\<close> stands for
  the method \<^verbatim>\<open>x.timestamp()\<close> of their elements, which yields a finite float or raises
  (a naive datetime of the year 1 raises \<^verbatim>\<open>ValueError\<close>).
  \<^verbatim>\<open>np.vectorize\<close> without \<^verbatim>\<open>otypes\<close> refuses an input of size 0 with a
  \<^verbatim>\<open>ValueError\<close>; otherwise it finds the output type by calling the function on the first
  element, and then calls it on every element in turn. The subtraction is the binary64 one,
  and \<^verbatim>\<open>np.argmin\<close> returns the index of the first smallest element.
\<close>

fun map_results :: "('a \<Rightarrow> error + 'b) \<Rightarrow> 'a list \<Rightarrow> error + 'b list" where
  \<comment> \<open>the calls one after the other; the first exception ends them\<close>
  "map_results f [] = Inr []"
| "map_results f (x # xs) =
     and_then (f x) (\<lambda>y. and_then (map_results f xs) (\<lambda>ys. Inr (y # ys)))"

definition np_vectorize :: "('a \<Rightarrow> error + rat) \<Rightarrow> 'a list \<Rightarrow> error + rat list" where
  "np_vectorize f arr =
     (case arr of
        [] \<Rightarrow> Inl ValueError
      | first # others \<Rightarrow> and_then (f first) (\<lambda>output. map_results f arr))"

fun argmin_loop :: "rat list \<Rightarrow> nat \<Rightarrow> rat \<Rightarrow> nat \<Rightarrow> nat" where
  "argmin_loop [] i best best_i = best_i"
| "argmin_loop (x # xs) i best best_i =
     (if x < best then argmin_loop xs (Suc i) x i else argmin_loop xs (Suc i) best best_i)"

definition np_argmin :: "rat list \<Rightarrow> error + nat" where
  "np_argmin xs = (case xs of [] \<Rightarrow> Inl ValueError | x # rest \<Rightarrow> Inr (argmin_loop rest 1 x 0))"

definition abs_diff :: "rat list \<Rightarrow> rat \<Rightarrow> rat list" where
  \<comment> \<open>\<^verbatim>\<open>np.abs(source_arr_fl - t)\<close>\<close>
  "abs_diff source_arr_fl t = map (\<lambda>s. \<bar>fl (s - t)\<bar>) source_arr_fl"

fun closest_loop :: "rat list \<Rightarrow> rat list \<Rightarrow> nat list \<Rightarrow> error + nat list" where
  "closest_loop source_arr_fl [] idx_arr = Inr idx_arr"
| "closest_loop source_arr_fl (t # rest) idx_arr =
     and_then (np_argmin (abs_diff source_arr_fl t)) (\<lambda>j.
     closest_loop source_arr_fl rest (idx_arr @ [j]))"

definition findClosestDatetimeIndices ::
  "('a \<Rightarrow> error + rat) \<Rightarrow> 'a list \<Rightarrow> 'a list \<Rightarrow> error + nat list" where
  "findClosestDatetimeIndices timestamp test_arr source_arr =
     and_then (np_vectorize timestamp test_arr) (\<lambda>test_arr_fl.
     and_then (np_vectorize timestamp source_arr) (\<lambda>source_arr_fl.
     closest_loop source_arr_fl test_arr_fl []))"

text \<open>
  What the result is measured against: \<open>first_argmin xs j\<close> says that \<open>j\<close> is the first
  position of a smallest element of \<open>xs\<close>.
\<close>

definition first_argmin :: "rat list \<Rightarrow> nat \<Rightarrow> bool" where
  "first_argmin xs j \<longleftrightarrow>
     j < length xs \<and> (\<forall>x \<in> set xs. xs ! j \<le> x) \<and> (\<forall>x \<in> set (take j xs). xs ! j < x)"

text \<open>
  For worked examples: \<^verbatim>\<open>x.timestamp()\<close> of a datetime whose \<^verbatim>\<open>tzinfo\<close> is UTC is
  \<^verbatim>\<open>(x - datetime(1970, 1, 1, tzinfo=utc)).total_seconds()\<close>, the microseconds since then
  divided by \<open>10\<^sup>6\<close> in binary64.
\<close>

definition utc_timestamp :: "timezone datetime \<Rightarrow> rat" where
  "utc_timestamp x =
     fl (of_int (wall_microseconds x - wall_microseconds (january_first 1970)) / 1000000)"

section \<open>\<^verbatim>\<open>datetime2TLEepoch\<close>\<close>

subsection \<open>Numbers to text: \<^verbatim>\<open>str(int)\<close>, \<^verbatim>\<open>zfill\<close> and \<^verbatim>\<open>str(float)\<close>\<close>

function decimal_digits :: "int \<Rightarrow> string" where
  \<comment> \<open>the decimal digits of a natural number, the most significant first\<close>
  "decimal_digits n =
     (if n < 10 then [''0123456789'' ! nat n]
      else decimal_digits (n div 10) @ [''0123456789'' ! nat (n mod 10)])"
  by pat_completeness auto
termination
  by (relation "measure nat") auto

declare decimal_digits.simps [simp del]

definition py_str_int :: "int \<Rightarrow> string" where
  "py_str_int n = (if n < 0 then CHR ''-'' # decimal_digits (- n) else decimal_digits n)"

definition zfill :: "nat \<Rightarrow> string \<Rightarrow> string" where
  \<comment> \<open>\<^verbatim>\<open>s.zfill(width)\<close>: zeros go after a leading sign\<close>
  "zfill width s =
     (let pad = replicate (width - length s) (CHR ''0'')
      in case s of
           [] \<Rightarrow> pad
         | c # cs \<Rightarrow> if c = CHR ''+'' \<or> c = CHR ''-'' then c # pad @ cs else pad @ s)"

definition last_chars :: "nat \<Rightarrow> string \<Rightarrow> string" where
  \<comment> \<open>\<^verbatim>\<open>s[-n:]\<close>: the last \<open>n\<close> characters, or all of a shorter string\<close>
  "last_chars n s = drop (length s - n) s"

text \<open>
  \<^verbatim>\<open>str\<close> of a float is its \<^verbatim>\<open>repr\<close>: the shortest string of decimal digits that converts
  back to the same binary64 number, and among those of that length the one nearest to it.
  It is written with an exponent when the decimal point would come four or more places
  before the first digit or more than sixteen places after it, and positionally otherwise.
  \<open>shortest_digits\<close> tries 1, 2, ... digits; with 17 digits a candidate always converts
  back.
\<close>

definition ilog10 :: "rat \<Rightarrow> int" where
  \<comment> \<open>\<open>\<lfloor>log\<^sub>1\<^sub>0 q\<rfloor>\<close> for \<open>q > 0\<close>\<close>
  "ilog10 q =
     (let (a, b) = quotient_of q;
          k = int (length (decimal_digits a)) - int (length (decimal_digits b))
      in if ten_pow k \<le> q then k else k - 1)"

definition repr_candidate :: "rat \<Rightarrow> int \<Rightarrow> (int \<times> int) option" where
  \<comment> \<open>the multiple of \<open>10 ^ k\<close> just below or just above \<open>x\<close> that converts back to
      \<open>x\<close>; if both do, the nearer one, and the even one if they are equally near\<close>
  "repr_candidate x k =
     (let lo = \<lfloor>x / ten_pow k\<rfloor>;
          hi = lo + 1;
          ok_lo = (fl (of_int lo * ten_pow k) = x);
          ok_hi = (fl (of_int hi * ten_pow k) = x);
          below = x - of_int lo * ten_pow k;
          above = of_int hi * ten_pow k - x
      in if ok_lo \<and> ok_hi
         then (if below < above \<or> (below = above \<and> lo mod 2 = 0) then Some (lo, k)
               else Some (hi, k))
         else if ok_lo then Some (lo, k)
         else if ok_hi then Some (hi, k)
         else None)"

fun shortest_digits :: "rat \<Rightarrow> int \<Rightarrow> nat \<Rightarrow> int \<Rightarrow> int \<times> int" where
  \<comment> \<open>\<open>fuel\<close> more lengths to try, the next one being \<open>n\<close> digits\<close>
  "shortest_digits x e10 0 n = (\<lfloor>x / ten_pow (e10 - n + 1)\<rfloor>, e10 - n + 1)"
| "shortest_digits x e10 (Suc fuel) n =
     (case repr_candidate x (e10 - n + 1) of
        Some r \<Rightarrow> r
      | None \<Rightarrow> shortest_digits x e10 fuel (n + 1))"

definition repr_digits :: "rat \<Rightarrow> string \<times> int" where
  \<comment> \<open>the digits of \<^verbatim>\<open>repr(x)\<close> for \<open>x > 0\<close> and the position of the decimal point
      relative to their start. Only the candidate \<open>10\<close> of the one-digit round can end in
      a zero; it is the digit 1 one place higher.\<close>
  "repr_digits x =
     (let (d, k) = shortest_digits x (ilog10 x) 17 1;
          (d, k) = (if d mod 10 = 0 then (d div 10, k + 1) else (d, k));
          ds = decimal_digits d
      in (ds, int (length ds) + k))"

definition py_repr_float :: "rat \<Rightarrow> string" where
  \<comment> \<open>\<^verbatim>\<open>str(x)\<close> for a finite float\<close>
  "py_repr_float x =
     (if x = 0 then ''0.0''
      else let (ds, decpt) = repr_digits \<bar>x\<bar>;
               sign = (if x < 0 then ''-'' else '''');
               nd = int (length ds)
           in sign @
              (if decpt \<le> - 4 \<or> 16 < decpt
               then (let e = decpt - 1
                     in take 1 ds @ (if 1 < nd then CHR ''.'' # drop 1 ds else [])
                          @ ''e'' @ (if e < 0 then ''-'' else ''+'')
                          @ zfill 2 (decimal_digits \<bar>e\<bar>))
               else if decpt \<le> 0 then ''0.'' @ replicate (nat (- decpt)) (CHR ''0'') @ ds
               else if decpt < nd then take (nat decpt) ds @ ''.'' @ drop (nat decpt) ds
               else ds @ replicate (nat (decpt - nd)) (CHR ''0'') @ ''.0''))"

subsection \<open>The conversion\<close>

definition tm_yday :: "'tz datetime \<Rightarrow> int" where
  \<comment> \<open>\<^verbatim>\<open>date.timetuple().tm_yday\<close>: the day of the year, 1 for the first of January\<close>
  "tm_yday date = days_before_month (year date) (month date) + day date"

definition total_seconds :: "timedelta \<Rightarrow> rat" where
  \<comment> \<open>\<^verbatim>\<open>delta.total_seconds()\<close>: the microseconds of the delta divided by \<open>10\<^sup>6\<close>, as a float\<close>
  "total_seconds delta =
     fl (of_int ((days delta * 86400 + seconds delta) * 1000000 + microseconds delta) / 1000000)"

definition datetime2TLEepoch :: "'tz datetime \<Rightarrow> error + string" where
  "datetime2TLEepoch date =
     (let tzinfo = tzinfo date;
          year_str = last_chars 2 (py_str_int (year date));
          day_str = zfill 3 (py_str_int (tm_yday date))
      in and_then (new_datetime (year date) (month date) (day date) 0 0 0 0 tzinfo) (\<lambda>midnight.
         and_then (datetime_subtract date midnight) (\<lambda>delta.
         and_then (timedelta_days_int 1) (\<lambda>one_day.
         let fraction_str =
               drop 1 (py_repr_float (fl (total_seconds delta / total_seconds one_day)))
         in Inr (year_str @ day_str @ fraction_str)))))"

text \<open>
  The time of day in microseconds, which the property of \<open>datetime2TLEepoch\<close> is stated
  with.
\<close>

definition microseconds_of_day :: "'tz datetime \<Rightarrow> int" where
  "microseconds_of_day date =
     ((hour date * 60 + minute date) * 60 + second date) * 1000000 + microsecond date"

section \<open>Properties of \<open>datetime2sgp4epoch\<close>\<close>

lemma new_delta_total:
  "new_delta d s us =
     (let total = (d * 86400 + s) * 1000000 + us
      in if - 999999999 \<le> total div 86400000000 \<and> total div 86400000000 \<le> 999999999
         then Inr \<lparr>days = total div 86400000000,
                   seconds = total mod 86400000000 div 1000000,
                   microseconds = total mod 1000000\<rparr>
         else Inl OverflowError)"
proof -
  define total where "total = (d * 86400 + s) * 1000000 + us"
  have a: "total div 1000000 = d * 86400 + s + us div 1000000"
    unfolding total_def by simp
  have b: "total mod 1000000 = us mod 1000000"
    unfolding total_def by (metis add.commute mod_mult_self1)
  have c: "total div 86400000000 = d + (s + us div 1000000) div 86400"
  proof -
    have "total div 86400000000 = (total div 1000000) div 86400"
      by (simp add: zdiv_zmult2_eq)
    also have "\<dots> = d + (s + us div 1000000) div 86400"
      unfolding a by (simp add: add.assoc)
    finally show ?thesis .
  qed
  have d: "total mod 86400000000 div 1000000 = (s + us div 1000000) mod 86400"
  proof -
    have "total mod 86400000000 = 1000000 * (total div 1000000 mod 86400) + total mod 1000000"
      using zmod_zmult2_eq [where a = total and b = 1000000 and c = 86400] by simp
    then have "total mod 86400000000 div 1000000 = (total div 1000000) mod 86400"
      by simp
    also have "\<dots> = (s + us div 1000000) mod 86400"
      unfolding a by (simp add: add.assoc)
    finally show ?thesis .
  qed
  show ?thesis
    unfolding new_delta_def normalize_pair_def Let_def total_def [symmetric]
    by (simp add: b c d)
qed

lemma days_before_month_bounds:
  assumes "1 \<le> m" "m \<le> 12"
  shows "0 \<le> days_before_month y m \<and> days_before_month y m \<le> 335"
proof -
  from assms have "m = 1 \<or> m = 2 \<or> m = 3 \<or> m = 4 \<or> m = 5 \<or> m = 6 \<or> m = 7 \<or> m = 8
      \<or> m = 9 \<or> m = 10 \<or> m = 11 \<or> m = 12" by arith
  then show ?thesis
    by (elim disjE) (simp_all add: days_before_month_def)
qed

lemma days_in_month_le: 
  assumes "1 \<le> m" "m \<le> 12"
  shows "days_in_month y m \<le> 31"
proof -
  from assms have "m = 1 \<or> m = 2 \<or> m = 3 \<or> m = 4 \<or> m = 5 \<or> m = 6 \<or> m = 7 \<or> m = 8
      \<or> m = 9 \<or> m = 10 \<or> m = 11 \<or> m = 12" by arith
  then show ?thesis
    by (elim disjE) (simp_all add: days_in_month_def)
qed

lemma days_before_year_bounds:
  assumes "1 \<le> y" "y \<le> 9999"
  shows "0 \<le> days_before_year y \<and> days_before_year y \<le> 3651694"
proof -
  define z where "z = y - 1"
  have z: "0 \<le> z" "z \<le> 9998" using assms by (simp_all add: z_def)
  have a: "0 \<le> z div 4" "z div 4 \<le> 2499" using z by simp_all
  have b: "0 \<le> z div 100" "z div 100 \<le> z div 4"
    using z by (simp_all add: zdiv_mono2)
  have c: "0 \<le> z div 400" "z div 400 \<le> 24" using z by simp_all
  show ?thesis
    unfolding days_before_year_def Let_def z_def [symmetric] using z a b c by linarith
qed

lemma toordinal_bounds:
  assumes "valid_datetime t"
  shows "1 \<le> toordinal t \<and> toordinal t \<le> 3652061"
proof -
  from assms have y: "1 \<le> year t" "year t \<le> 9999" and m: "1 \<le> month t" "month t \<le> 12"
    and d: "1 \<le> day t" "day t \<le> days_in_month (year t) (month t)"
    by (simp_all add: valid_datetime_def)
  from d days_in_month_le [OF m, of "year t"] have d': "day t \<le> 31" by linarith
  show ?thesis
    using days_before_year_bounds [OF y] days_before_month_bounds [OF m, of "year t"] d(1) d'
    unfolding toordinal_def ymd2ord_def by linarith
qed

lemma sgp4start_valid:
  "valid_datetime \<lparr>year = 1949, month = 12, day = 31, hour = 0, minute = 0, second = 0,
     microsecond = 0, tzinfo = tz\<rparr>"
  by (simp add: valid_datetime_def days_in_month_def is_leap_def)

lemma wall_microseconds_bounds:
  assumes "valid_datetime t"
  shows "86400000000 \<le> wall_microseconds t \<and> wall_microseconds t < 315538156800000000"
proof -
  from assms have f: "0 \<le> hour t" "hour t \<le> 23" "0 \<le> minute t" "minute t \<le> 59"
    "0 \<le> second t" "second t \<le> 59" "0 \<le> microsecond t" "microsecond t \<le> 999999"
    by (simp_all add: valid_datetime_def)
  show ?thesis
    using toordinal_bounds [OF assms] f unfolding wall_microseconds_def
    by (simp add: algebra_simps)
qed

lemma datetime_subtract_total:
  assumes a: "valid_datetime a" and b: "valid_datetime b" and tz: "tzinfo a = tzinfo b"
  shows "datetime_subtract a b =
    Inr \<lparr>days = (wall_microseconds a - wall_microseconds b) div 86400000000,
         seconds = (wall_microseconds a - wall_microseconds b) mod 86400000000 div 1000000,
         microseconds = (wall_microseconds a - wall_microseconds b) mod 1000000\<rparr>"
proof -
  define t where "t = wall_microseconds a - wall_microseconds b"
  have eq: "((toordinal a - toordinal b) * 86400
      + ((hour a * 3600 + minute a * 60 + second a) - (hour b * 3600 + minute b * 60 + second b)))
      * 1000000 + (microsecond a - microsecond b) = t"
    unfolding t_def wall_microseconds_def by (simp add: algebra_simps)
  have "- 315538156800000000 < t" "t < 315538156800000000"
    using wall_microseconds_bounds [OF a] wall_microseconds_bounds [OF b]
    unfolding t_def by linarith+
  then have "- 999999999 \<le> t div 86400000000 \<and> t div 86400000000 \<le> 999999999"
    by linarith
  then show ?thesis
    unfolding datetime_subtract_def new_delta_total Let_def eq t_def [symmetric]
    using tz by simp
qed

lemma fl_zero: "fl 0 = 0"
  by (simp add: fl_def)

lemma fl_one: "fl 1 = 1"
  by code_simp

text \<open>
  Claim C2. For every datetime \<open>d\<close>, aware or naive, \<open>datetime2sgp4epoch\<close> returns the
  whole days plus the whole seconds of the remainder divided by 86400 of the time elapsed
  between the SGP4 reference instant 1949-12-31T00:00:00 (with the \<^verbatim>\<open>tzinfo\<close> of
  \<open>d\<close>) and \<open>d\<close>, both operations rounded to binary64. The reference instant itself gives
  0.0 and the instant one day later gives 1.0.
\<close>

theorem datetime2sgp4epoch_elapsed:
  fixes d :: "'tz datetime" and tz :: "'tz option"
  shows "(valid_datetime d \<longrightarrow>
      datetime2sgp4epoch d =
        Inr (fl (of_int (elapsed_microseconds d div 86400000000)
               + fl (of_int (elapsed_microseconds d mod 86400000000 div 1000000) / 86400))))
   \<and> datetime2sgp4epoch (sgp4_reference tz) = Inr 0
   \<and> datetime2sgp4epoch ((sgp4_reference tz)\<lparr>year := 1950, month := 1, day := 1\<rparr>) = Inr 1"
proof (intro conjI impI)
  assume v: "valid_datetime d"
  have n: "new_datetime 1949 12 31 0 0 0 0 (tzinfo d) = Inr (sgp4_reference (tzinfo d))"
    using sgp4start_valid [of "tzinfo d"] by (simp add: new_datetime_def sgp4_reference_def)
  have r: "valid_datetime (sgp4_reference (tzinfo d))"
    using sgp4start_valid [of "tzinfo d"] by (simp add: sgp4_reference_def)
  have t: "tzinfo d = tzinfo (sgp4_reference (tzinfo d))"
    by (simp add: sgp4_reference_def)
  show "datetime2sgp4epoch d =
        Inr (fl (of_int (elapsed_microseconds d div 86400000000)
               + fl (of_int (elapsed_microseconds d mod 86400000000 div 1000000) / 86400)))"
    unfolding datetime2sgp4epoch_def n elapsed_microseconds_def
    by (simp add: datetime_subtract_total [OF v r t])
next
  show "datetime2sgp4epoch (sgp4_reference tz) = Inr 0"
    by (simp add: datetime2sgp4epoch_def sgp4_reference_def new_datetime_def valid_datetime_def
        days_in_month_def is_leap_def datetime_subtract_def new_delta_def normalize_pair_def
        toordinal_def fl_zero)
next
  show "datetime2sgp4epoch ((sgp4_reference tz)\<lparr>year := 1950, month := 1, day := 1\<rparr>) = Inr 1"
    by (simp add: datetime2sgp4epoch_def sgp4_reference_def new_datetime_def valid_datetime_def
        days_in_month_def is_leap_def datetime_subtract_def new_delta_def normalize_pair_def
        toordinal_def ymd2ord_def days_before_year_def days_before_month_def fl_zero fl_one)
qed

theorem datetime2sgp4epoch_elapsed_witness:
  "valid_datetime \<lparr>year = 2021, month = 3, day = 1, hour = 11, minute = 27, second = 33,
      microsecond = 5, tzinfo = Some ''UTC''\<rparr>
   \<and> datetime2sgp4epoch \<lparr>year = 2021, month = 3, day = 1, hour = 11, minute = 27, second = 33,
      microsecond = 5, tzinfo = Some ''UTC''\<rparr> = Inr (3572516339925793 / 137438953472)"
proof -
  define D :: "string datetime" where
    "D = \<lparr>year = 2021, month = 3, day = 1, hour = 11, minute = 27, second = 33,
      microsecond = 5, tzinfo = Some ''UTC''\<rparr>"
  have v: "valid_datetime D"
    by (simp add: D_def valid_datetime_def days_in_month_def is_leap_def)
  have e: "elapsed_microseconds D = 2245836453000005"
    by (simp add: D_def elapsed_microseconds_def wall_microseconds_def sgp4_reference_def
        toordinal_def ymd2ord_def days_before_year_def days_before_month_def is_leap_def)
  have f: "fl (25993 + fl (13751 / 28800)) = 3572516339925793 / 137438953472"
    by code_simp
  from datetime2sgp4epoch_elapsed [of D None] v
  have "datetime2sgp4epoch D = Inr (3572516339925793 / 137438953472)"
    by (simp add: e f)
  with v show ?thesis by (simp add: D_def)
qed

text \<open>
  Claim C10. \<open>datetime2sgp4epoch\<close> ignores the sub-second part of its argument: the result
  for \<open>d\<close> equals the result for \<open>d\<close> with the microsecond replaced by zero.
\<close>

theorem datetime2sgp4epoch_ignores_microsecond:
  assumes "valid_datetime d"
  shows "datetime2sgp4epoch (d\<lparr>microsecond := 0\<rparr>) = datetime2sgp4epoch d"
proof -
  have n: "new_datetime 1949 12 31 0 0 0 0 (tzinfo d) = Inr (sgp4_reference (tzinfo d))"
    using sgp4start_valid [of "tzinfo d"] by (simp add: new_datetime_def sgp4_reference_def)
  have r: "valid_datetime (sgp4_reference (tzinfo d))"
    using sgp4start_valid [of "tzinfo d"] by (simp add: sgp4_reference_def)
  have t: "tzinfo d = tzinfo (sgp4_reference (tzinfo d))"
    by (simp add: sgp4_reference_def)
  define d0 where "d0 = d\<lparr>microsecond := 0\<rparr>"
  have v0: "valid_datetime d0" and t0: "tzinfo d0 = tzinfo (sgp4_reference (tzinfo d))"
    using assms by (simp_all add: d0_def valid_datetime_def sgp4_reference_def)
  define w where "w = wall_microseconds d0 - wall_microseconds (sgp4_reference (tzinfo d))"
  define u where "u = microsecond d"
  have u: "0 \<le> u" "u < 1000000"
    using assms by (simp_all add: u_def valid_datetime_def)
  have w: "wall_microseconds d - wall_microseconds (sgp4_reference (tzinfo d)) = w + u"
    by (simp add: w_def u_def d0_def wall_microseconds_def toordinal_def)
  have m: "w mod 1000000 = 0"
    by (simp add: w_def d0_def wall_microseconds_def sgp4_reference_def toordinal_def)
  then obtain k where k: "w = 1000000 * k" by auto
  have s: "(w + u) div 1000000 = w div 1000000"
    using u unfolding k by simp
  have dd: "(w + u) div 86400000000 = w div 86400000000"
  proof -
    have "(w + u) div 86400000000 = (w + u) div 1000000 div 86400"
      by (simp add: zdiv_zmult2_eq)
    also have "\<dots> = w div 1000000 div 86400" by (simp only: s)
    also have "\<dots> = w div 86400000000" by (simp add: zdiv_zmult2_eq)
    finally show ?thesis .
  qed
  have ss: "(w + u) mod 86400000000 div 1000000 = w mod 86400000000 div 1000000"
  proof -
    have e: "x mod 86400000000 div 1000000 = x div 1000000 mod 86400" for x :: int
    proof -
      have "x mod 86400000000 = 1000000 * (x div 1000000 mod 86400) + x mod 1000000"
        using zmod_zmult2_eq [where a = x and b = 1000000 and c = 86400] by simp
      then show ?thesis by simp
    qed
    show ?thesis by (simp only: e s)
  qed
  have "datetime2sgp4epoch d0 = datetime2sgp4epoch d"
    unfolding datetime2sgp4epoch_def
    using n t0 t
    by (simp add: d0_def [symmetric] datetime_subtract_total [OF v0 r t0]
        datetime_subtract_total [OF assms r t] w w_def [symmetric] dd ss)
  then show ?thesis by (simp add: d0_def)
qed

theorem datetime2sgp4epoch_ignores_microsecond_witness:
  "valid_datetime \<lparr>year = 2021, month = 3, day = 1, hour = 23, minute = 59, second = 59,
      microsecond = 999999, tzinfo = (None :: string option)\<rparr>
   \<and> datetime2sgp4epoch \<lparr>year = 2021, month = 3, day = 1, hour = 23, minute = 59, second = 59,
      microsecond = 0, tzinfo = (None :: string option)\<rparr>
     = datetime2sgp4epoch \<lparr>year = 2021, month = 3, day = 1, hour = 23, minute = 59,
      second = 59, microsecond = 999999, tzinfo = (None :: string option)\<rparr>"
proof -
  have v: "valid_datetime \<lparr>year = 2021, month = 3, day = 1, hour = 23, minute = 59, second = 59,
      microsecond = 999999, tzinfo = (None :: string option)\<rparr>"
    by (simp add: valid_datetime_def days_in_month_def is_leap_def)
  from datetime2sgp4epoch_ignores_microsecond [OF v] v show ?thesis by simp
qed

section \<open>Properties of \<open>epoch2datetime\<close>\<close>

subsection \<open>The conversions it is built from\<close>

lemma length_py_strip: "length (py_strip s) \<le> length s"
proof -
  have "length (py_strip s) \<le> length (dropWhile is_space s)"
    unfolding py_strip_def using length_dropWhile_le [of is_space "rev (dropWhile is_space s)"]
    by simp
  also have "\<dots> \<le> length s" by (rule length_dropWhile_le)
  finally show ?thesis .
qed

lemma length_split_sign:
  "split_sign s = (neg, body) \<Longrightarrow> length body \<le> length s \<and> (neg \<longrightarrow> length body < length s)"
  by (auto simp: split_sign_def split: list.splits if_splits)

lemma length_strip_underscores:
  "strip_underscores prev s = Some t \<Longrightarrow> length t \<le> length s"
proof (induction s arbitrary: prev t)
  case Nil
  then show ?case by (simp split: if_splits)
next
  case (Cons c cs)
  then show ?case by (fastforce split: if_splits)
qed

lemma digit_value_range: "is_digit c \<Longrightarrow> 0 \<le> digit_value c \<and> digit_value c \<le> 9"
  by (auto simp: is_digit_def digit_value_def)

lemma foldl_digits_bound:
  "list_all is_digit ds \<Longrightarrow> 0 \<le> a \<Longrightarrow>
     0 \<le> foldl (\<lambda>a c. 10 * a + digit_value c) a ds
     \<and> foldl (\<lambda>a c. 10 * a + digit_value c) a ds < (a + 1) * 10 ^ length ds"
proof (induction ds arbitrary: a)
  case Nil
  then show ?case by simp
next
  case (Cons c cs)
  from Cons.prems have c: "0 \<le> digit_value c" "digit_value c \<le> 9" and cs: "list_all is_digit cs"
    using digit_value_range [of c] by simp_all
  define b where "b = 10 * a + digit_value c"
  have b0: "0 \<le> b" using c Cons.prems(2) by (simp add: b_def)
  have b1: "b + 1 \<le> 10 * (a + 1)" using c by (simp add: b_def)
  from Cons.IH [OF cs b0]
  have ih: "0 \<le> foldl (\<lambda>a c. 10 * a + digit_value c) b cs"
    "foldl (\<lambda>a c. 10 * a + digit_value c) b cs < (b + 1) * 10 ^ length cs" by simp_all
  have "(b + 1) * 10 ^ length cs \<le> (10 * (a + 1)) * 10 ^ length cs"
    using b1 by (intro mult_right_mono) simp_all
  also have "\<dots> = (a + 1) * 10 ^ length (c # cs)" by simp
  finally have "foldl (\<lambda>a c. 10 * a + digit_value c) b cs < (a + 1) * 10 ^ length (c # cs)"
    using ih(2) by linarith
  with ih(1) show ?case by (simp only: foldl_Cons b_def [symmetric])
qed

lemma digits_value_bound:
  "list_all is_digit ds \<Longrightarrow> 0 \<le> digits_value ds \<and> digits_value ds < 10 ^ length ds"
  using foldl_digits_bound [of ds 0] by (simp add: digits_value_def)

lemma py_int_two_chars:
  assumes "length s \<le> 2" and "py_int s = Inr y"
  shows "- 9 \<le> y \<and> y \<le> 99"
proof -
  obtain neg body where sb: "split_sign (py_strip s) = (neg, body)" by fastforce
  from assms(2) sb obtain ds where ds: "strip_underscores (CHR 0x00) body = Some ds"
    and dig: "list_all is_digit ds" and y: "y = (if neg then - digits_value ds else digits_value ds)"
    by (auto simp: py_int_def split: option.splits if_splits)
  from length_split_sign [OF sb] length_py_strip [of s] assms(1)
  have lb: "length body \<le> 2" "neg \<longrightarrow> length body \<le> 1" by auto
  from length_strip_underscores [OF ds] lb have ld: "length ds \<le> 2" "neg \<longrightarrow> length ds \<le> 1"
    by auto
  from digits_value_bound [OF dig] have v: "0 \<le> digits_value ds" "digits_value ds < 10 ^ length ds"
    by simp_all
  have "(10::int) ^ length ds \<le> 10 ^ 2" using ld(1) by (intro power_increasing) simp_all
  with v have v2: "digits_value ds < 100" by simp
  have "neg \<Longrightarrow> digits_value ds < 10"
  proof -
    assume neg
    with ld have "(10::int) ^ length ds \<le> 10 ^ 1" by (intro power_increasing) simp_all
    with v show ?thesis by simp
  qed
  with v v2 y show ?thesis by auto
qed

lemma py_int_error: "py_int s = Inl e \<Longrightarrow> e = ValueError"
  by (auto simp: py_int_def split: prod.splits option.splits if_splits)

lemma py_float_error: "py_float s = Inl e \<Longrightarrow> e = ValueError"
  by (auto simp: py_float_def Let_def split: prod.splits option.splits if_splits)

lemma py_float_empty: "py_float [] = Inl ValueError"
  by (simp add: py_float_def py_strip_def split_sign_def parse_decimal_def)

lemma new_delta_error: "new_delta d s us = Inl e \<Longrightarrow> e = OverflowError"
  by (auto simp: new_delta_def Let_def split: prod.splits if_splits)

lemma timedelta_days_float_error:
  "timedelta_days_float f = Inl e \<Longrightarrow> (e = ValueError \<and> f = NaN) \<or> (e = OverflowError \<and> f \<noteq> NaN)"
  by (cases f) (auto simp: timedelta_days_float_def Let_def dest: new_delta_error)

lemma add_datetime_timedelta_error:
  "add_datetime_timedelta date delta factor = Inl e \<Longrightarrow> e = OverflowError"
  by (auto simp: add_datetime_timedelta_def Let_def split: prod.splits if_splits)

lemma timedelta_one_day: "timedelta_days_int 1 = Inr \<lparr>days = 1, seconds = 0, microseconds = 0\<rparr>"
  by (simp add: timedelta_days_int_def new_delta_def normalize_pair_def)

lemma new_datetime_jan_first:
  "1 \<le> y \<Longrightarrow> y \<le> 9999 \<Longrightarrow>
   new_datetime y 1 1 0 0 0 0 tz =
     Inr \<lparr>year = y, month = 1, day = 1, hour = 0, minute = 0, second = 0, microsecond = 0,
          tzinfo = tz\<rparr>"
  by (simp add: new_datetime_def valid_datetime_def days_in_month_def)

subsection \<open>The conversion itself\<close>

lemma epoch2datetime_unfold:
  assumes y: "py_int (take 2 s) = Inr y" and f: "py_float (drop 2 s) = Inr f"
  shows "epoch2datetime s =
     and_then (timedelta_days_float f) (\<lambda>delta.
     and_then (add_datetime_timedelta (january_first (pivot_year y)) delta 1) (\<lambda>shifted.
     add_datetime_timedelta shifted \<lparr>days = 1, seconds = 0, microseconds = 0\<rparr> (- 1)))"
proof -
  from py_int_two_chars [OF _ y] have r: "- 9 \<le> y" "y \<le> 99" by simp_all
  then have p: "1 \<le> pivot_year y" "pivot_year y \<le> 9999" by (simp_all add: pivot_year_def)
  show ?thesis
    unfolding epoch2datetime_def y f
    by (simp add: and_then_def Let_def pivot_year_def [symmetric] new_datetime_jan_first [OF p]
        timedelta_one_day january_first_def)
qed

lemmas parse_defs = py_int_def py_float_def py_strip_def is_space_def is_digit_def
  split_sign_def parse_decimal_def lower_ascii_def digits_value_def digit_value_def ten_pow_def
  to_binary64_def

lemma fl_999999999: "fl 999999999 = 999999999"
  by code_simp

lemma fl_121_2: "fl (121 / 2) = 121 / 2"
  by code_simp

lemma round_trip_1950:
  "and_then (timedelta_days_float (Finite 1)) (\<lambda>delta.
     and_then (add_datetime_timedelta (january_first 1950) delta 1) (\<lambda>shifted.
     add_datetime_timedelta shifted \<lparr>days = 1, seconds = 0, microseconds = 0\<rparr> (- 1)))
   = Inr (january_first 1950)"
  by code_simp

lemma round_trip_2021:
  "and_then (timedelta_days_float (Finite 1)) (\<lambda>delta.
     and_then (add_datetime_timedelta (january_first 2021) delta 1) (\<lambda>shifted.
     add_datetime_timedelta shifted \<lparr>days = 1, seconds = 0, microseconds = 0\<rparr> (- 1)))
   = Inr (january_first 2021)"
  by code_simp

lemma round_trip_2049:
  "and_then (timedelta_days_float (Finite 1)) (\<lambda>delta.
     and_then (add_datetime_timedelta (january_first 2049) delta 1) (\<lambda>shifted.
     add_datetime_timedelta shifted \<lparr>days = 1, seconds = 0, microseconds = 0\<rparr> (- 1)))
   = Inr (january_first 2049)"
  by code_simp

lemma epoch2datetime_21001: "epoch2datetime ''21001.00000000'' = Inr (january_first 2021)"
proof -
  have y: "py_int (take 2 ''21001.00000000'') = Inr 21"
    by (simp add: parse_defs)
  have f: "py_float (drop 2 ''21001.00000000'') = Inr (Finite 1)"
    by (simp add: parse_defs fl_one)
  show ?thesis
    unfolding epoch2datetime_unfold [OF y f] by (simp add: pivot_year_def round_trip_2021)
qed

lemma epoch_21060_parts:
  shows "py_int (take 2 ''21060.50000000'') = Inr 21"
    and "py_float (drop 2 ''21060.50000000'') = Inr (Finite (121 / 2))"
    and "timedelta_days_float (Finite (121 / 2))
      = Inr \<lparr>days = 60, seconds = 43200, microseconds = 0\<rparr>"
    and "add_datetime_timedelta (january_first (pivot_year 21))
        \<lparr>days = 60, seconds = 43200, microseconds = 0\<rparr> 1
      = Inr \<lparr>year = 2021, month = 3, day = 2, hour = 12, minute = 0, second = 0,
             microsecond = 0, tzinfo = Some UTC\<rparr>"
    and "add_datetime_timedelta
        \<lparr>year = 2021, month = 3, day = 2, hour = 12, minute = 0, second = 0,
          microsecond = 0, tzinfo = Some UTC\<rparr>
        \<lparr>days = 1, seconds = 0, microseconds = 0\<rparr> (- 1)
      = Inr \<lparr>year = 2021, month = 3, day = 1, hour = 12, minute = 0, second = 0,
             microsecond = 0, tzinfo = Some UTC\<rparr>"
proof -
  show "py_int (take 2 ''21060.50000000'') = Inr 21"
    by (simp add: parse_defs)
  show "py_float (drop 2 ''21060.50000000'') = Inr (Finite (121 / 2))"
    by (simp add: parse_defs fl_121_2)
  show "timedelta_days_float (Finite (121 / 2))
      = Inr \<lparr>days = 60, seconds = 43200, microseconds = 0\<rparr>"
    by code_simp
  show "add_datetime_timedelta (january_first (pivot_year 21))
        \<lparr>days = 60, seconds = 43200, microseconds = 0\<rparr> 1
      = Inr \<lparr>year = 2021, month = 3, day = 2, hour = 12, minute = 0, second = 0,
             microsecond = 0, tzinfo = Some UTC\<rparr>"
    by code_simp
  show "add_datetime_timedelta
        \<lparr>year = 2021, month = 3, day = 2, hour = 12, minute = 0, second = 0,
          microsecond = 0, tzinfo = Some UTC\<rparr>
        \<lparr>days = 1, seconds = 0, microseconds = 0\<rparr> (- 1)
      = Inr \<lparr>year = 2021, month = 3, day = 1, hour = 12, minute = 0, second = 0,
             microsecond = 0, tzinfo = Some UTC\<rparr>"
    by code_simp
qed

lemma epoch2datetime_21060:
  "epoch2datetime ''21060.50000000''
     = Inr \<lparr>year = 2021, month = 3, day = 1, hour = 12, minute = 0, second = 0,
            microsecond = 0, tzinfo = Some UTC\<rparr>"
  unfolding epoch2datetime_unfold [OF epoch_21060_parts(1, 2)]
  by (simp add: and_then_def epoch_21060_parts(3, 4, 5))


text \<open>
  Claim C1, amended. For an epoch string of at least 3 characters whose first two characters
  convert to the integer \<open>y\<close> and whose other characters convert to the float \<open>f\<close>,
  \<open>epoch2datetime\<close> returns \<^verbatim>\<open>datetime(Y, 1, 1, UTC) + timedelta(days=f) - timedelta(days=1)\<close>
  with \<open>Y = y + 2000\<close> for \<open>y < 50\<close> and \<open>Y = y + 1900\<close> otherwise, whenever
  \<^verbatim>\<open>timedelta(days=f)\<close> and the two sums exist, that is, stay in the ranges of
  \<^verbatim>\<open>timedelta\<close> and \<^verbatim>\<open>datetime\<close>. Otherwise it raises: the exception is that of the
  first of \<^verbatim>\<open>timedelta(days=f)\<close>, the addition and the subtraction that fails. The strings
  \<^verbatim>\<open>49001.00000000\<close>, \<^verbatim>\<open>50001.00000000\<close> and \<^verbatim>\<open>21001.00000000\<close> give midnight UTC of
  the first of January of 2049, 1950 and 2021.
\<close>

theorem epoch2datetime_value:
  "(3 \<le> length s \<and> py_int (take 2 s) = Inr y \<and> py_float (drop 2 s) = Inr f
      \<and> timedelta_days_float f = Inr delta
      \<and> add_datetime_timedelta (january_first (pivot_year y)) delta 1 = Inr shifted
      \<and> add_datetime_timedelta shifted \<lparr>days = 1, seconds = 0, microseconds = 0\<rparr> (- 1) = Inr result
      \<longrightarrow> epoch2datetime s = Inr result)
   \<and> (3 \<le> length s \<and> py_int (take 2 s) = Inr y \<and> py_float (drop 2 s) = Inr f
      \<and> (timedelta_days_float f = Inl e
           \<or> (\<exists>d. timedelta_days_float f = Inr d
                 \<and> (add_datetime_timedelta (january_first (pivot_year y)) d 1 = Inl e
                      \<or> (\<exists>sh. add_datetime_timedelta (january_first (pivot_year y)) d 1 = Inr sh
                            \<and> add_datetime_timedelta sh
                                 \<lparr>days = 1, seconds = 0, microseconds = 0\<rparr> (- 1) = Inl e))))
      \<longrightarrow> epoch2datetime s = Inl e)
   \<and> epoch2datetime ''49001.00000000'' = Inr (january_first 2049)
   \<and> epoch2datetime ''50001.00000000'' = Inr (january_first 1950)
   \<and> epoch2datetime ''21001.00000000'' = Inr (january_first 2021)"
proof (intro conjI impI)
  assume "3 \<le> length s \<and> py_int (take 2 s) = Inr y \<and> py_float (drop 2 s) = Inr f
      \<and> timedelta_days_float f = Inr delta
      \<and> add_datetime_timedelta (january_first (pivot_year y)) delta 1 = Inr shifted
      \<and> add_datetime_timedelta shifted \<lparr>days = 1, seconds = 0, microseconds = 0\<rparr> (- 1) = Inr result"
  then show "epoch2datetime s = Inr result"
    by (simp add: epoch2datetime_unfold and_then_def)
next
  assume a: "3 \<le> length s \<and> py_int (take 2 s) = Inr y \<and> py_float (drop 2 s) = Inr f
      \<and> (timedelta_days_float f = Inl e
           \<or> (\<exists>d. timedelta_days_float f = Inr d
                 \<and> (add_datetime_timedelta (january_first (pivot_year y)) d 1 = Inl e
                      \<or> (\<exists>sh. add_datetime_timedelta (january_first (pivot_year y)) d 1 = Inr sh
                            \<and> add_datetime_timedelta sh
                                 \<lparr>days = 1, seconds = 0, microseconds = 0\<rparr> (- 1) = Inl e))))"
  then have y: "py_int (take 2 s) = Inr y" and f: "py_float (drop 2 s) = Inr f"
    by simp_all
  from a show "epoch2datetime s = Inl e"
    unfolding epoch2datetime_unfold [OF y f] by (auto simp: and_then_def)
next
  have y: "py_int (take 2 ''49001.00000000'') = Inr 49"
    by (simp add: parse_defs)
  have f: "py_float (drop 2 ''49001.00000000'') = Inr (Finite 1)"
    by (simp add: parse_defs fl_one)
  show "epoch2datetime ''49001.00000000'' = Inr (january_first 2049)"
    unfolding epoch2datetime_unfold [OF y f] by (simp add: pivot_year_def round_trip_2049)
next
  have y: "py_int (take 2 ''50001.00000000'') = Inr 50"
    by (simp add: parse_defs)
  have f: "py_float (drop 2 ''50001.00000000'') = Inr (Finite 1)"
    by (simp add: parse_defs fl_one)
  show "epoch2datetime ''50001.00000000'' = Inr (january_first 1950)"
    unfolding epoch2datetime_unfold [OF y f] by (simp add: pivot_year_def round_trip_1950)
next
  show "epoch2datetime ''21001.00000000'' = Inr (january_first 2021)"
    by (rule epoch2datetime_21001)
qed

theorem epoch2datetime_value_witness:
  "3 \<le> length ''21060.50000000'' \<and> py_int (take 2 ''21060.50000000'') = Inr 21
   \<and> py_float (drop 2 ''21060.50000000'') = Inr (Finite (121 / 2))
   \<and> timedelta_days_float (Finite (121 / 2)) = Inr \<lparr>days = 60, seconds = 43200, microseconds = 0\<rparr>
   \<and> add_datetime_timedelta (january_first (pivot_year 21))
        \<lparr>days = 60, seconds = 43200, microseconds = 0\<rparr> 1
      = Inr \<lparr>year = 2021, month = 3, day = 2, hour = 12, minute = 0, second = 0,
             microsecond = 0, tzinfo = Some UTC\<rparr>
   \<and> add_datetime_timedelta
        \<lparr>year = 2021, month = 3, day = 2, hour = 12, minute = 0, second = 0,
          microsecond = 0, tzinfo = Some UTC\<rparr>
        \<lparr>days = 1, seconds = 0, microseconds = 0\<rparr> (- 1)
      = Inr \<lparr>year = 2021, month = 3, day = 1, hour = 12, minute = 0, second = 0,
             microsecond = 0, tzinfo = Some UTC\<rparr>
   \<and> epoch2datetime ''21060.50000000''
      = Inr \<lparr>year = 2021, month = 3, day = 1, hour = 12, minute = 0, second = 0,
             microsecond = 0, tzinfo = Some UTC\<rparr>
   \<and> 3 \<le> length ''99-inf'' \<and> py_int (take 2 ''99-inf'') = Inr 99
   \<and> py_float (drop 2 ''99-inf'') = Inr NegInf
   \<and> timedelta_days_float NegInf = Inl OverflowError
   \<and> epoch2datetime ''99-inf'' = Inl OverflowError"
proof -
  have y: "py_int (take 2 ''99-inf'') = Inr 99"
    by (simp add: parse_defs)
  have f: "py_float (drop 2 ''99-inf'') = Inr NegInf"
    by (simp add: parse_defs)
  have d: "timedelta_days_float NegInf = Inl OverflowError"
    by (simp add: timedelta_days_float_def)
  from y f d
    epoch2datetime_value [where s = "''99-inf''" and y = 99 and f = NegInf
      and e = OverflowError]
  have r: "epoch2datetime ''99-inf'' = Inl OverflowError"
    by simp
  from epoch_21060_parts
    epoch2datetime_value [where s = "''21060.50000000''" and y = 21 and f = "Finite (121 / 2)"
      and delta = "\<lparr>days = 60, seconds = 43200, microseconds = 0\<rparr>"
      and shifted = "\<lparr>year = 2021, month = 3, day = 2, hour = 12, minute = 0, second = 0,
             microsecond = 0, tzinfo = Some UTC\<rparr>"
      and result = "\<lparr>year = 2021, month = 3, day = 1, hour = 12, minute = 0, second = 0,
             microsecond = 0, tzinfo = Some UTC\<rparr>"]
  have "epoch2datetime ''21060.50000000''
      = Inr \<lparr>year = 2021, month = 3, day = 1, hour = 12, minute = 0, second = 0,
             microsecond = 0, tzinfo = Some UTC\<rparr>"
    by simp
  with epoch_21060_parts y f d r show ?thesis
    by simp
qed

text \<open>
  The claim as it was stated has no range condition. It fails on \<^verbatim>\<open>21999999999\<close>: both
  parts convert, and the sum leaves the range of \<^verbatim>\<open>datetime\<close>.
\<close>

theorem epoch2datetime_overflow_counterexample:
  "3 \<le> length ''21999999999'' \<and> py_int (take 2 ''21999999999'') = Inr 21
   \<and> py_float (drop 2 ''21999999999'') = Inr (Finite 999999999)
   \<and> epoch2datetime ''21999999999'' = Inl OverflowError"
proof -
  have y: "py_int (take 2 ''21999999999'') = Inr 21"
    by (simp add: parse_defs)
  have f: "py_float (drop 2 ''21999999999'') = Inr (Finite 999999999)"
    by (simp add: parse_defs fl_999999999)
  have d: "timedelta_days_float (Finite 999999999)
      = Inr \<lparr>days = 999999999, seconds = 0, microseconds = 0\<rparr>"
    by (simp add: timedelta_days_float_def fl_zero new_delta_def normalize_pair_def
        round_half_even_def)
  have a: "add_datetime_timedelta (january_first 2021)
      \<lparr>days = 999999999, seconds = 0, microseconds = 0\<rparr> 1 = Inl OverflowError"
    by (simp add: add_datetime_timedelta_def january_first_def normalize_pair_def ymd2ord_def
        days_before_year_def days_before_month_def)
  have "epoch2datetime ''21999999999'' = Inl OverflowError"
    unfolding epoch2datetime_unfold [OF y f] by (simp add: and_then_def d a pivot_year_def)
  with y f show ?thesis by simp
qed

text \<open>
  Claim C9, amended. \<open>epoch2datetime\<close> raises \<^verbatim>\<open>ValueError\<close> exactly when its argument
  has fewer than 3 characters, or the first two do not convert to an integer, or the others
  do not convert to a float, or they convert to a NaN. On every other argument it returns
  a datetime or raises \<^verbatim>\<open>OverflowError\<close>.
\<close>

theorem epoch2datetime_errors:
  "(epoch2datetime s = Inl ValueError \<longleftrightarrow>
      length s < 3 \<or> py_int (take 2 s) = Inl ValueError \<or> py_float (drop 2 s) = Inl ValueError
      \<or> py_float (drop 2 s) = Inr NaN)
   \<and> ((\<exists>d. epoch2datetime s = Inr d) \<or> epoch2datetime s = Inl ValueError
        \<or> epoch2datetime s = Inl OverflowError)"
proof -
  have short: "py_float (drop 2 s) = Inl ValueError" if "length s < 3"
  proof -
    from that have "drop 2 s = []" by simp
    then show ?thesis by (simp add: py_float_empty)
  qed
  show ?thesis
  proof (cases "py_int (take 2 s)")
    case (Inl e)
    with py_int_error have e: "py_int (take 2 s) = Inl ValueError" by blast
    then show ?thesis by (simp add: epoch2datetime_def and_then_def)
  next
    case y: (Inr y)
    show ?thesis
    proof (cases "py_float (drop 2 s)")
      case (Inl e)
      with py_float_error have e: "py_float (drop 2 s) = Inl ValueError" by blast
      with y show ?thesis by (simp add: epoch2datetime_def and_then_def Let_def)
    next
      case f: (Inr f)
      have ns: "\<not> length s < 3" using short f by fastforce
      note u = epoch2datetime_unfold [OF y f]
      show ?thesis
      proof (cases "timedelta_days_float f")
        case (Inl e)
        with timedelta_days_float_error [OF Inl] u y f ns show ?thesis
          by (auto simp: and_then_def)
      next
        case d: (Inr delta)
        then have nn: "f \<noteq> NaN" by (auto simp: timedelta_days_float_def)
        show ?thesis
        proof (cases "add_datetime_timedelta (january_first (pivot_year y)) delta 1")
          case (Inl e)
          with add_datetime_timedelta_error [OF Inl] u d y f ns nn show ?thesis
            by (auto simp: and_then_def)
        next
          case a: (Inr shifted)
          show ?thesis
          proof (cases "add_datetime_timedelta shifted \<lparr>days = 1, seconds = 0, microseconds = 0\<rparr> (- 1)")
            case (Inl e)
            with add_datetime_timedelta_error [OF Inl] u d a y f ns nn show ?thesis
              by (auto simp: and_then_def)
          next
            case (Inr result)
            with u d a y f ns nn show ?thesis by (auto simp: and_then_def)
          qed
        qed
      qed
    qed
  qed
qed

theorem epoch2datetime_errors_witness:
  "length ''21'' < 3 \<and> epoch2datetime ''21'' = Inl ValueError
   \<and> py_int (take 2 ''2x001.5'') = Inl ValueError \<and> epoch2datetime ''2x001.5'' = Inl ValueError
   \<and> py_float (drop 2 ''21001.5.'') = Inl ValueError \<and> epoch2datetime ''21001.5.'' = Inl ValueError"
proof -
  have a: "py_int (take 2 ''2x001.5'') = Inl ValueError"
    by (simp add: parse_defs)
  have b: "py_float (drop 2 ''21001.5.'') = Inl ValueError"
    by (simp add: parse_defs)
  from a b epoch2datetime_errors [of "''21''"] epoch2datetime_errors [of "''2x001.5''"]
    epoch2datetime_errors [of "''21001.5.''"]
  show ?thesis by simp
qed

text \<open>
  The claim as it was stated promises a datetime whenever both parts convert. On
  \<^verbatim>\<open>21nan\<close> both convert and the call raises \<^verbatim>\<open>ValueError\<close>; on \<^verbatim>\<open>21inf\<close> both
  convert and it raises \<^verbatim>\<open>OverflowError\<close>.
\<close>

theorem epoch2datetime_errors_counterexample:
  "\<not> length ''21nan'' < 3 \<and> py_int (take 2 ''21nan'') = Inr 21
   \<and> py_float (drop 2 ''21nan'') = Inr NaN \<and> epoch2datetime ''21nan'' = Inl ValueError
   \<and> \<not> length ''21inf'' < 3 \<and> py_int (take 2 ''21inf'') = Inr 21
   \<and> py_float (drop 2 ''21inf'') = Inr PosInf \<and> epoch2datetime ''21inf'' = Inl OverflowError"
proof -
  have y: "py_int (take 2 ''21nan'') = Inr 21" "py_int (take 2 ''21inf'') = Inr 21"
    by (simp_all add: parse_defs)
  have n: "py_float (drop 2 ''21nan'') = Inr NaN"
    by (simp add: parse_defs)
  have i: "py_float (drop 2 ''21inf'') = Inr PosInf"
    by (simp add: parse_defs)
  have "epoch2datetime ''21nan'' = Inl ValueError"
    unfolding epoch2datetime_unfold [OF y(1) n]
    by (simp add: and_then_def timedelta_days_float_def)
  moreover have "epoch2datetime ''21inf'' = Inl OverflowError"
    unfolding epoch2datetime_unfold [OF y(2) i]
    by (simp add: and_then_def timedelta_days_float_def)
  ultimately show ?thesis using y n i by simp
qed

section \<open>Properties of the TLE file functions\<close>

lemma and_then_Inr_iff: "and_then m f = Inr y \<longleftrightarrow> (\<exists>x. m = Inr x \<and> f x = Inr y)"
  by (cases m) (simp_all add: and_then_def)

lemma and_then_Inr: "and_then (Inr x) f = f x"
  by (simp add: and_then_def)

lemma and_then_Inl: "and_then (Inl e) f = Inl e"
  by (simp add: and_then_def)

lemma path_exists_Missing: "fs tle_path = Missing None \<Longrightarrow> path_exists fs tle_path = Inr False"
  by (simp add: path_exists_def)

lemma path_exists_raises: "fs tle_path = Missing (Some e) \<Longrightarrow> path_exists fs tle_path = Inl e"
  by (simp add: path_exists_def)

lemma path_exists_Present: "fs tle_path = Present r \<Longrightarrow> path_exists fs tle_path = Inr True"
  by (simp add: path_exists_def)

lemma readlines_Present: "fs tle_path = Present r \<Longrightarrow> readlines fs tle_path = r"
  by (simp add: readlines_def)

lemma path_state_cases:
  obtains "fs tle_path = Missing None" | e where "fs tle_path = Missing (Some e)"
  | r where "fs tle_path = Present r"
proof (cases "fs tle_path")
  case (Missing x)
  then show ?thesis using that(1, 2) by (cases x) auto
next
  case (Present r)
  then show ?thesis using that(3) by auto
qed

text \<open>
  Claim C5, amended. Each of \<open>getStoredEpochs\<close>, \<open>getAllStoredEpochs\<close> and
  \<open>getStoredTLEByIdx\<close> returns \<^verbatim>\<open>None\<close> exactly when there is no file at the path and
  \<^verbatim>\<open>Path.exists\<close> answers \<^verbatim>\<open>False\<close>. When there is no file and \<^verbatim>\<open>Path.exists\<close> raises,
  each of them raises the same exception. When there is a file, the result is a value other
  than \<^verbatim>\<open>None\<close> or an exception.
\<close>

theorem stored_none_iff_absent:
  "(getStoredEpochs split fs tle_path = Inr None \<longleftrightarrow> fs tle_path = Missing None)
   \<and> (getAllStoredEpochs split fs tle_path = Inr None \<longleftrightarrow> fs tle_path = Missing None)
   \<and> (getStoredTLEByIdx split fs tle_path idx_list string_only = Inr None
        \<longleftrightarrow> fs tle_path = Missing None)
   \<and> (fs tle_path = Missing (Some e) \<longrightarrow>
        getStoredEpochs split fs tle_path = Inl e
        \<and> getAllStoredEpochs split fs tle_path = Inl e
        \<and> getStoredTLEByIdx split fs tle_path idx_list string_only = Inl e)"
proof (intro conjI impI)
  show "getStoredEpochs split fs tle_path = Inr None \<longleftrightarrow> fs tle_path = Missing None"
    by (rule path_state_cases [of fs tle_path])
      (simp_all add: getStoredEpochs_def path_exists_def and_then_Inr_iff and_then_Inr
        and_then_Inl)
  show "getAllStoredEpochs split fs tle_path = Inr None \<longleftrightarrow> fs tle_path = Missing None"
    by (rule path_state_cases [of fs tle_path])
      (simp_all add: getAllStoredEpochs_def path_exists_def and_then_Inr_iff and_then_Inr
        and_then_Inl)
  show "getStoredTLEByIdx split fs tle_path idx_list string_only = Inr None
      \<longleftrightarrow> fs tle_path = Missing None"
    by (rule path_state_cases [of fs tle_path])
      (simp_all add: getStoredTLEByIdx_def path_exists_def and_then_Inr_iff and_then_Inr
        and_then_Inl Let_def)
next
  assume a: "fs tle_path = Missing (Some e)"
  then show "getStoredEpochs split fs tle_path = Inl e"
    by (simp add: getStoredEpochs_def path_exists_def and_then_Inl)
  from a show "getAllStoredEpochs split fs tle_path = Inl e"
    by (simp add: getAllStoredEpochs_def path_exists_def and_then_Inl)
  from a show "getStoredTLEByIdx split fs tle_path idx_list string_only = Inl e"
    by (simp add: getStoredTLEByIdx_def path_exists_def and_then_Inl)
qed

theorem stored_none_iff_absent_witness:
  "getStoredEpochs split_on_spaces (\<lambda>path. Missing None) ''iss.tle'' = Inr None
   \<and> getAllStoredEpochs split_on_spaces (\<lambda>path. Missing None) ''iss.tle'' = Inr None
   \<and> getStoredTLEByIdx split_on_spaces (\<lambda>path. Missing None) ''iss.tle'' (Single 0) True = Inr None
   \<and> getStoredEpochs split_on_spaces (\<lambda>path. Present (Inr [])) ''iss.tle'' \<noteq> Inr None
   \<and> getAllStoredEpochs split_on_spaces (\<lambda>path. Present (Inr [])) ''iss.tle'' \<noteq> Inr None
   \<and> getStoredTLEByIdx split_on_spaces (\<lambda>path. Present (Inr [])) ''iss.tle'' (Single 0) True
       \<noteq> Inr None
   \<and> getStoredEpochs split_on_spaces (\<lambda>path. Missing (Some TypeError)) ''iss.tle''
       = Inl TypeError"
  using stored_none_iff_absent [of split_on_spaces "\<lambda>path. Missing None" "''iss.tle''"
      "Single 0" True OSError]
    stored_none_iff_absent [of split_on_spaces "\<lambda>path. Present (Inr [])" "''iss.tle''"
      "Single 0" True OSError]
    stored_none_iff_absent [of split_on_spaces "\<lambda>path. Missing (Some TypeError)" "''iss.tle''"
      "Single 0" True TypeError]
  by simp

text \<open>
  The claim as it was stated promises \<^verbatim>\<open>None\<close> and no exception whenever the path does not
  exist. Where there is no file and \<^verbatim>\<open>stat\<close> fails with an error that \<^verbatim>\<open>Path.exists\<close> does
  not ignore, as for a name longer than the system allows, the three functions raise
  \<^verbatim>\<open>OSError\<close>.
\<close>

theorem stored_absent_counterexample:
  "getStoredEpochs split_on_spaces (\<lambda>path. Missing (Some OSError)) (replicate 5000 CHR ''a'')
     = Inl OSError
   \<and> getAllStoredEpochs split_on_spaces (\<lambda>path. Missing (Some OSError)) (replicate 5000 CHR ''a'')
     = Inl OSError
   \<and> getStoredTLEByIdx split_on_spaces (\<lambda>path. Missing (Some OSError))
       (replicate 5000 CHR ''a'') (Single 0) True
     = Inl OSError"
  by (simp add: getStoredEpochs_def getAllStoredEpochs_def getStoredTLEByIdx_def path_exists_def
      and_then_Inl)

text \<open>
  Claim C6. On a file that exists, can be read and is well formed, that is, whose line 1 and whose
  last line but one exist and are split without error into at least four fields each, the
  fields at position 3 being epochs that \<open>epoch2datetime\<close> converts, \<open>getStoredEpochs\<close>
  returns the pair of the two converted epochs, that of line 1 first. Nothing is assumed
  on how the two epochs compare. In a file of six lines (two records) the last line but
  one is line 4, the line 1 of record 1.
\<close>

theorem getStoredEpochs_pair:
  "(fs tle_path = Present (Inr lines)
      \<and> record_at split lines 1 = Inr first_tle_line_1
      \<and> record_at split lines (- 2) = Inr last_tle_line_1
      \<and> list_getitem (fields_of first_tle_line_1) 3 = Inr first_epoch
      \<and> list_getitem (fields_of last_tle_line_1) 3 = Inr last_epoch
      \<and> epoch2datetime first_epoch = Inr first_epoch_dt
      \<and> epoch2datetime last_epoch = Inr last_epoch_dt
      \<longrightarrow> getStoredEpochs split fs tle_path = Inr (Some (first_epoch_dt, last_epoch_dt)))
   \<and> (length lines = 6 \<longrightarrow> record_at split lines (- 2) = record_at split lines 4)"
proof (intro conjI impI)
  assume "fs tle_path = Present (Inr lines)
      \<and> record_at split lines 1 = Inr first_tle_line_1
      \<and> record_at split lines (- 2) = Inr last_tle_line_1
      \<and> list_getitem (fields_of first_tle_line_1) 3 = Inr first_epoch
      \<and> list_getitem (fields_of last_tle_line_1) 3 = Inr last_epoch
      \<and> epoch2datetime first_epoch = Inr first_epoch_dt
      \<and> epoch2datetime last_epoch = Inr last_epoch_dt"
  then show "getStoredEpochs split fs tle_path = Inr (Some (first_epoch_dt, last_epoch_dt))"
    by (auto simp: getStoredEpochs_def path_exists_def readlines_def record_at_def
        and_then_Inr_iff and_then_Inr)
next
  assume "length lines = 6"
  then show "record_at split lines (- 2) = record_at split lines 4"
    by (simp add: record_at_def list_getitem_def)
qed


theorem getStoredEpochs_pair_witness:
  "getStoredEpochs split_on_spaces
     (one_file ''iss.tle'' [''ISS\<newline>'', ''1 25544U 98067A 21060.50000000 .00001264\<newline>'', ''2 25544 51.6416\<newline>'',
         ''ISS\<newline>'', ''1 25544U 98067A 21001.00000000 .00001264\<newline>'', ''2 25544 51.6416\<newline>''])
     ''iss.tle''
   = Inr (Some (\<lparr>year = 2021, month = 3, day = 1, hour = 12, minute = 0, second = 0,
                   microsecond = 0, tzinfo = Some UTC\<rparr>,
                january_first 2021))
   \<and> record_at split_on_spaces
        [''ISS\<newline>'', ''1 25544U 98067A 21060.50000000 .00001264\<newline>'', ''2 25544 51.6416\<newline>'',
         ''ISS\<newline>'', ''1 25544U 98067A 21001.00000000 .00001264\<newline>'', ''2 25544 51.6416\<newline>''] (- 2)
      = Inr \<lparr>fields_of = [''1'', ''25544U'', ''98067A'', ''21001.00000000'', ''.00001264''],
             line_str = ''1 25544U 98067A 21001.00000000 .00001264\<newline>''\<rparr>"
proof -
  let ?lines = "[''ISS\<newline>'', ''1 25544U 98067A 21060.50000000 .00001264\<newline>'', ''2 25544 51.6416\<newline>'',
         ''ISS\<newline>'', ''1 25544U 98067A 21001.00000000 .00001264\<newline>'', ''2 25544 51.6416\<newline>'']"
  let ?fs = "one_file ''iss.tle'' ?lines"
  let ?r1 = "\<lparr>fields_of = [''1'', ''25544U'', ''98067A'', ''21060.50000000'', ''.00001264''],
             line_str = ''1 25544U 98067A 21060.50000000 .00001264\<newline>''\<rparr>"
  let ?r2 = "\<lparr>fields_of = [''1'', ''25544U'', ''98067A'', ''21001.00000000'', ''.00001264''],
             line_str = ''1 25544U 98067A 21001.00000000 .00001264\<newline>''\<rparr>"
  have f: "?fs ''iss.tle'' = Present (Inr ?lines)"
    by (simp add: one_file_def)
  have r1: "record_at split_on_spaces ?lines 1 = Inr ?r1"
    by (simp add: record_at_def list_getitem_def and_then_Inr split_on_spaces_def is_space_def)
  have r2: "record_at split_on_spaces ?lines 4 = Inr ?r2"
    by (simp add: record_at_def list_getitem_def and_then_Inr split_on_spaces_def is_space_def)
  have e: "list_getitem (fields_of ?r1) 3 = Inr ''21060.50000000''"
    "list_getitem (fields_of ?r2) 3 = Inr ''21001.00000000''"
    by (simp_all add: list_getitem_def)
  note t = getStoredEpochs_pair [of ?fs "''iss.tle''" ?lines split_on_spaces ?r1 ?r2
      "''21060.50000000''" "''21001.00000000''"
      "\<lparr>year = 2021, month = 3, day = 1, hour = 12, minute = 0, second = 0,
         microsecond = 0, tzinfo = Some UTC\<rparr>" "january_first 2021"]
  from t [THEN conjunct2] r2 have l: "record_at split_on_spaces ?lines (- 2) = Inr ?r2"
    by simp
  from t [THEN conjunct1] f r1 l e epoch2datetime_21060 epoch2datetime_21001
  have "getStoredEpochs split_on_spaces ?fs ''iss.tle''
      = Inr (Some (\<lparr>year = 2021, month = 3, day = 1, hour = 12, minute = 0, second = 0,
                      microsecond = 0, tzinfo = Some UTC\<rparr>,
                   january_first 2021))"
    by blast
  with l show ?thesis
    by simp
qed

lemma tles_loop_step:
  "tles_loop split lines string_only (idx # rest) tles =
     and_then (record_lines split lines idx) (\<lambda>r.
     tles_loop split lines string_only rest
       (tles @ [(if string_only then record_text else record_dict) r]))"
  by (simp add: record_lines_def record_at_def record_text_def record_dict_def and_then_def
      split: sum.splits)

lemma tles_loop_iff:
  "tles_loop split lines string_only idxs tles = Inr out \<longleftrightarrow>
     (\<exists>rs. map (record_lines split lines) idxs = map Inr rs
        \<and> out = tles @ map (if string_only then record_text else record_dict) rs)"
proof (induction idxs arbitrary: tles)
  case Nil
  then show ?case by auto
next
  case (Cons idx rest)
  let ?g = "if string_only then record_text else record_dict"
  have "tles_loop split lines string_only (idx # rest) tles = Inr out \<longleftrightarrow>
      (\<exists>r. record_lines split lines idx = Inr r
         \<and> tles_loop split lines string_only rest (tles @ [?g r]) = Inr out)"
    unfolding tles_loop_step by (rule and_then_Inr_iff)
  also have "\<dots> \<longleftrightarrow> (\<exists>r rs. record_lines split lines idx = Inr r
         \<and> map (record_lines split lines) rest = map Inr rs
         \<and> out = tles @ map ?g (r # rs))"
    unfolding Cons.IH by auto
  also have "\<dots> \<longleftrightarrow> (\<exists>rs. map (record_lines split lines) (idx # rest) = map Inr rs
         \<and> out = tles @ map ?g rs)"
  proof
    assume "\<exists>r rs. record_lines split lines idx = Inr r
         \<and> map (record_lines split lines) rest = map Inr rs
         \<and> out = tles @ map ?g (r # rs)"
    then obtain r rs where "record_lines split lines idx = Inr r"
      "map (record_lines split lines) rest = map Inr rs" "out = tles @ map ?g (r # rs)"
      by blast
    then have "map (record_lines split lines) (idx # rest) = map Inr (r # rs)
         \<and> out = tles @ map ?g (r # rs)"
      by simp
    then show "\<exists>rs. map (record_lines split lines) (idx # rest) = map Inr rs
         \<and> out = tles @ map ?g rs"
      by blast
  next
    assume "\<exists>rs. map (record_lines split lines) (idx # rest) = map Inr rs
         \<and> out = tles @ map ?g rs"
    then obtain rs where m: "map (record_lines split lines) (idx # rest) = map Inr rs"
      and o: "out = tles @ map ?g rs"
      by blast
    from m obtain r rs' where "rs = r # rs'" by (cases rs) auto
    with m o show "\<exists>r rs. record_lines split lines idx = Inr r
         \<and> map (record_lines split lines) rest = map Inr rs
         \<and> out = tles @ map ?g (r # rs)"
      by auto
  qed
  finally show ?case .
qed

lemma getStoredTLEByIdx_iff:
  assumes "fs tle_path = Present (Inr lines)"
  shows "getStoredTLEByIdx split fs tle_path (Many idxs) string_only = Inr (Some tles) \<longleftrightarrow>
     (\<exists>rs. map (record_lines split lines) idxs = map Inr rs
        \<and> tles = map (if string_only then record_text else record_dict) rs)"
  using assms
  by (simp add: getStoredTLEByIdx_def path_exists_def readlines_def and_then_Inr_iff and_then_Inr
      tles_loop_iff)

lemma getStoredTLEByIdx_records:
  assumes "fs tle_path = Present (Inr lines)" and "map (record_lines split lines) idxs = map Inr rs"
  shows "getStoredTLEByIdx split fs tle_path (Many idxs) string_only
     = Inr (Some (map (if string_only then record_text else record_dict) rs))"
  using assms
  by (simp add: getStoredTLEByIdx_def path_exists_def readlines_def and_then_Inr_iff and_then_Inr
      tles_loop_iff)

lemma getStoredTLEByIdx_Single:
  "getStoredTLEByIdx split fs tle_path (Single idx) string_only =
   getStoredTLEByIdx split fs tle_path (Many [idx]) string_only"
  by (simp add: getStoredTLEByIdx_def cong: if_cong)

lemma getStoredTLEByIdx_raises:
  assumes p: "fs tle_path = Present (Inr lines)"
    and n: "\<not> (\<exists>rs. map (record_lines split lines) idxs = map Inr rs)"
  shows "\<exists>e. getStoredTLEByIdx split fs tle_path (Many idxs) string_only = Inl e"
proof (cases "getStoredTLEByIdx split fs tle_path (Many idxs) string_only")
  case (Inl e)
  then show ?thesis by blast
next
  case (Inr x)
  show ?thesis
  proof (cases x)
    case None
    with Inr p show ?thesis
      by (simp add: getStoredTLEByIdx_def path_exists_def readlines_def and_then_Inr_iff
          and_then_Inr)
  next
    case (Some tles)
    with Inr p n show ?thesis
      by (simp add: getStoredTLEByIdx_def path_exists_def readlines_def and_then_Inr_iff
          and_then_Inr tles_loop_iff)
  qed
qed

text \<open>
  Claim C7, amended. On a file that exists and can be read, \<open>getStoredTLEByIdx\<close> with
  \<^verbatim>\<open>string_only=True\<close> returns a list exactly when, for every requested record index \<open>k\<close>,
  the file lines \<open>3k\<close>, \<open>3k + 1\<close> and \<open>3k + 2\<close> exist and are split without error, and
  raises otherwise; the list then holds one string per requested index, in the order of the request, which is the
  \<^verbatim>\<open>line_str\<close> texts of the three lines one after the other with nothing between them.
  A single integer \<open>k\<close> stands for the list \<open>[k]\<close>. On a file whose first three lines are
  \<^verbatim>\<open>L0\<close>, \<^verbatim>\<open>L1\<close> and \<^verbatim>\<open>L2\<close>, each with its line feed, and a splitter that keeps the text
  of these lines as \<^verbatim>\<open>line_str\<close>, the index 0 gives the one string made of the three lines.
\<close>

theorem getStoredTLEByIdx_strings:
  "(fs tle_path = Present (Inr lines) \<longrightarrow>
      (getStoredTLEByIdx split fs tle_path (Many idxs) True = Inr (Some tles) \<longleftrightarrow>
         (\<exists>rs. map (record_lines split lines) idxs = map Inr rs \<and> tles = map record_text rs)))
   \<and> getStoredTLEByIdx split fs tle_path (Single idx) True
       = getStoredTLEByIdx split fs tle_path (Many [idx]) True
   \<and> (fs tle_path = Present (Inr (''L0\<newline>'' # ''L1\<newline>'' # ''L2\<newline>'' # others))
        \<and> split ''L0\<newline>'' = Inr r0 \<and> line_str r0 = ''L0\<newline>''
        \<and> split ''L1\<newline>'' = Inr r1 \<and> line_str r1 = ''L1\<newline>''
        \<and> split ''L2\<newline>'' = Inr r2 \<and> line_str r2 = ''L2\<newline>''
      \<longrightarrow> getStoredTLEByIdx split fs tle_path (Single 0) True
            = Inr (Some [RawText ''L0\<newline>L1\<newline>L2\<newline>'']))
   \<and> (fs tle_path = Present (Inr lines)
        \<and> \<not> (\<exists>rs. map (record_lines split lines) idxs = map Inr rs)
      \<longrightarrow> (\<exists>e. getStoredTLEByIdx split fs tle_path (Many idxs) True = Inl e))"
proof (intro conjI impI)
  assume "fs tle_path = Present (Inr lines)
        \<and> \<not> (\<exists>rs. map (record_lines split lines) idxs = map Inr rs)"
  then show "\<exists>e. getStoredTLEByIdx split fs tle_path (Many idxs) True = Inl e"
    using getStoredTLEByIdx_raises [where fs = fs and tle_path = tle_path and lines = lines
        and split = split and idxs = idxs and string_only = True]
    by blast
next
  assume "fs tle_path = Present (Inr lines)"
  with getStoredTLEByIdx_iff [where fs = fs and tle_path = tle_path and lines = lines
      and split = split and idxs = idxs and string_only = True and tles = tles]
  show "getStoredTLEByIdx split fs tle_path (Many idxs) True = Inr (Some tles) \<longleftrightarrow>
         (\<exists>rs. map (record_lines split lines) idxs = map Inr rs \<and> tles = map record_text rs)"
    by simp
next
  show "getStoredTLEByIdx split fs tle_path (Single idx) True
       = getStoredTLEByIdx split fs tle_path (Many [idx]) True"
    by (rule getStoredTLEByIdx_Single)
next
  assume a: "fs tle_path = Present (Inr (''L0\<newline>'' # ''L1\<newline>'' # ''L2\<newline>'' # others))
        \<and> split ''L0\<newline>'' = Inr r0 \<and> line_str r0 = ''L0\<newline>''
        \<and> split ''L1\<newline>'' = Inr r1 \<and> line_str r1 = ''L1\<newline>''
        \<and> split ''L2\<newline>'' = Inr r2 \<and> line_str r2 = ''L2\<newline>''"
  then have "record_lines split (''L0\<newline>'' # ''L1\<newline>'' # ''L2\<newline>'' # others) 0 = Inr (r0, r1, r2)"
    by (simp add: record_lines_def record_at_def list_getitem_def and_then_Inr)
  then have "map (record_lines split (''L0\<newline>'' # ''L1\<newline>'' # ''L2\<newline>'' # others)) [0]
      = map Inr [(r0, r1, r2)]"
    by simp
  with a have "getStoredTLEByIdx split fs tle_path (Many [0]) True
      = Inr (Some (map record_text [(r0, r1, r2)]))"
    using getStoredTLEByIdx_records [where fs = fs and tle_path = tle_path
        and lines = "''L0\<newline>'' # ''L1\<newline>'' # ''L2\<newline>'' # others" and split = split
        and idxs = "[0]" and string_only = True and rs = "[(r0, r1, r2)]"]
    by simp
  with a show "getStoredTLEByIdx split fs tle_path (Single 0) True
            = Inr (Some [RawText ''L0\<newline>L1\<newline>L2\<newline>''])"
    by (simp add: getStoredTLEByIdx_Single record_text_def)
qed

theorem getStoredTLEByIdx_strings_witness:
  "(one_file ''iss.tle'' [''L0\<newline>'', ''L1\<newline>'', ''L2\<newline>'', ''M0\<newline>'', ''M1\<newline>'', ''M2\<newline>'']) ''iss.tle''
     = Present (Inr [''L0\<newline>'', ''L1\<newline>'', ''L2\<newline>'', ''M0\<newline>'', ''M1\<newline>'', ''M2\<newline>''])
   \<and> getStoredTLEByIdx split_on_spaces
        (one_file ''iss.tle'' [''L0\<newline>'', ''L1\<newline>'', ''L2\<newline>'', ''M0\<newline>'', ''M1\<newline>'', ''M2\<newline>''])
        ''iss.tle'' (Many [1, 0]) True
      = Inr (Some [RawText ''M0\<newline>M1\<newline>M2\<newline>'', RawText ''L0\<newline>L1\<newline>L2\<newline>''])
   \<and> getStoredTLEByIdx split_on_spaces
        (one_file ''iss.tle'' [''L0\<newline>'', ''L1\<newline>'', ''L2\<newline>'', ''M0\<newline>'', ''M1\<newline>'', ''M2\<newline>''])
        ''iss.tle'' (Single 0) True
      = Inr (Some [RawText ''L0\<newline>L1\<newline>L2\<newline>''])"
proof -
  let ?lines = "[''L0\<newline>'', ''L1\<newline>'', ''L2\<newline>'', ''M0\<newline>'', ''M1\<newline>'', ''M2\<newline>'']"
  let ?fs = "one_file ''iss.tle'' ?lines"
  let ?rs = "[(\<lparr>fields_of = [''M0''], line_str = ''M0\<newline>''\<rparr>,
               \<lparr>fields_of = [''M1''], line_str = ''M1\<newline>''\<rparr>,
               \<lparr>fields_of = [''M2''], line_str = ''M2\<newline>''\<rparr>),
              (\<lparr>fields_of = [''L0''], line_str = ''L0\<newline>''\<rparr>,
               \<lparr>fields_of = [''L1''], line_str = ''L1\<newline>''\<rparr>,
               \<lparr>fields_of = [''L2''], line_str = ''L2\<newline>''\<rparr>)]"
  have f: "?fs ''iss.tle'' = Present (Inr ?lines)"
    by (simp add: one_file_def)
  have r: "map (record_lines split_on_spaces ?lines) [1, 0] = map Inr ?rs"
    by (simp add: record_lines_def record_at_def list_getitem_def and_then_Inr
        split_on_spaces_def is_space_def)
  have s: "split_on_spaces ''L0\<newline>'' = Inr \<lparr>fields_of = [''L0''], line_str = ''L0\<newline>''\<rparr>"
    "split_on_spaces ''L1\<newline>'' = Inr \<lparr>fields_of = [''L1''], line_str = ''L1\<newline>''\<rparr>"
    "split_on_spaces ''L2\<newline>'' = Inr \<lparr>fields_of = [''L2''], line_str = ''L2\<newline>''\<rparr>"
    by (simp_all add: split_on_spaces_def is_space_def)
  note t = getStoredTLEByIdx_strings [of ?fs "''iss.tle''" ?lines split_on_spaces "[1, 0]"
      "map record_text ?rs" 0 "[''M0\<newline>'', ''M1\<newline>'', ''M2\<newline>'']"
      "\<lparr>fields_of = [''L0''], line_str = ''L0\<newline>''\<rparr>"
      "\<lparr>fields_of = [''L1''], line_str = ''L1\<newline>''\<rparr>"
      "\<lparr>fields_of = [''L2''], line_str = ''L2\<newline>''\<rparr>"]
  from t [THEN conjunct1] f r
  have "getStoredTLEByIdx split_on_spaces ?fs ''iss.tle'' (Many [1, 0]) True
      = Inr (Some (map record_text ?rs))"
    by blast
  moreover from t [THEN conjunct2, THEN conjunct2, THEN conjunct1] f s have "getStoredTLEByIdx split_on_spaces ?fs ''iss.tle'' (Single 0) True
      = Inr (Some [RawText ''L0\<newline>L1\<newline>L2\<newline>''])"
    by simp
  ultimately show ?thesis
    using f by (simp add: record_text_def)
qed

text \<open>
  The claim as it was stated speaks of every file that exists and every record index. On a
  file of three lines the record 1 does not exist, and the call raises \<^verbatim>\<open>IndexError\<close>.
\<close>

theorem getStoredTLEByIdx_strings_counterexample:
  "getStoredTLEByIdx split_on_spaces (one_file ''iss.tle'' [''L0\<newline>'', ''L1\<newline>'', ''L2\<newline>''])
     ''iss.tle'' (Single 1) True = Inl IndexError"
  by (simp add: getStoredTLEByIdx_def one_file_def path_exists_def readlines_def list_getitem_def
      and_then_Inl and_then_Inr)


text \<open>
  Claim C8, amended. On a file that exists and can be read, \<open>getStoredTLEByIdx\<close> with
  \<^verbatim>\<open>string_only=False\<close> returns a list exactly when, for every requested record index \<open>k\<close>,
  the file lines \<open>3k\<close>, \<open>3k + 1\<close> and \<open>3k + 2\<close> exist and are split without error, and
  raises otherwise; the list then holds one mapping per requested index, in the order of the request, from the keys
  0, 1 and 2 to what the splitter returns for the three lines: the whole result of the
  splitter, which holds the field sequence of the line under \<^verbatim>\<open>fields\<close> and its text under
  \<^verbatim>\<open>line_str\<close>. A single integer \<open>k\<close> stands for the list \<open>[k]\<close>.
\<close>

theorem getStoredTLEByIdx_dicts:
  "(fs tle_path = Present (Inr lines) \<longrightarrow>
      (getStoredTLEByIdx split fs tle_path (Many idxs) False = Inr (Some tles) \<longleftrightarrow>
         (\<exists>rs. map (record_lines split lines) idxs = map Inr rs \<and> tles = map record_dict rs)))
   \<and> getStoredTLEByIdx split fs tle_path (Single idx) False
       = getStoredTLEByIdx split fs tle_path (Many [idx]) False
   \<and> (fs tle_path = Present (Inr lines)
        \<and> \<not> (\<exists>rs. map (record_lines split lines) idxs = map Inr rs)
      \<longrightarrow> (\<exists>e. getStoredTLEByIdx split fs tle_path (Many idxs) False = Inl e))"
proof (intro conjI impI)
  assume "fs tle_path = Present (Inr lines)
        \<and> \<not> (\<exists>rs. map (record_lines split lines) idxs = map Inr rs)"
  then show "\<exists>e. getStoredTLEByIdx split fs tle_path (Many idxs) False = Inl e"
    using getStoredTLEByIdx_raises [where fs = fs and tle_path = tle_path and lines = lines
        and split = split and idxs = idxs and string_only = False]
    by blast
next
  assume "fs tle_path = Present (Inr lines)"
  with getStoredTLEByIdx_iff [where fs = fs and tle_path = tle_path and lines = lines
      and split = split and idxs = idxs and string_only = False and tles = tles]
  show "getStoredTLEByIdx split fs tle_path (Many idxs) False = Inr (Some tles) \<longleftrightarrow>
         (\<exists>rs. map (record_lines split lines) idxs = map Inr rs \<and> tles = map record_dict rs)"
    by simp
next
  show "getStoredTLEByIdx split fs tle_path (Single idx) False
       = getStoredTLEByIdx split fs tle_path (Many [idx]) False"
    by (rule getStoredTLEByIdx_Single)
qed

theorem getStoredTLEByIdx_dicts_witness:
  "getStoredTLEByIdx split_on_spaces
     (one_file ''iss.tle'' [''L0 a\<newline>'', ''L1 b\<newline>'', ''L2 c\<newline>'', ''M0 d\<newline>'', ''M1 e\<newline>'', ''M2 f\<newline>''])
     ''iss.tle'' (Many [1, 0]) False
   = Inr (Some
       [FieldDict [(0, \<lparr>fields_of = [''M0'', ''d''], line_str = ''M0 d\<newline>''\<rparr>),
                   (1, \<lparr>fields_of = [''M1'', ''e''], line_str = ''M1 e\<newline>''\<rparr>),
                   (2, \<lparr>fields_of = [''M2'', ''f''], line_str = ''M2 f\<newline>''\<rparr>)],
        FieldDict [(0, \<lparr>fields_of = [''L0'', ''a''], line_str = ''L0 a\<newline>''\<rparr>),
                   (1, \<lparr>fields_of = [''L1'', ''b''], line_str = ''L1 b\<newline>''\<rparr>),
                   (2, \<lparr>fields_of = [''L2'', ''c''], line_str = ''L2 c\<newline>''\<rparr>)]])"
proof -
  let ?lines = "[''L0 a\<newline>'', ''L1 b\<newline>'', ''L2 c\<newline>'', ''M0 d\<newline>'', ''M1 e\<newline>'', ''M2 f\<newline>'']"
  let ?fs = "one_file ''iss.tle'' ?lines"
  let ?rs = "[(\<lparr>fields_of = [''M0'', ''d''], line_str = ''M0 d\<newline>''\<rparr>,
               \<lparr>fields_of = [''M1'', ''e''], line_str = ''M1 e\<newline>''\<rparr>,
               \<lparr>fields_of = [''M2'', ''f''], line_str = ''M2 f\<newline>''\<rparr>),
              (\<lparr>fields_of = [''L0'', ''a''], line_str = ''L0 a\<newline>''\<rparr>,
               \<lparr>fields_of = [''L1'', ''b''], line_str = ''L1 b\<newline>''\<rparr>,
               \<lparr>fields_of = [''L2'', ''c''], line_str = ''L2 c\<newline>''\<rparr>)]"
  have f: "?fs ''iss.tle'' = Present (Inr ?lines)"
    by (simp add: one_file_def)
  have r: "map (record_lines split_on_spaces ?lines) [1, 0] = map Inr ?rs"
    by (simp add: record_lines_def record_at_def list_getitem_def and_then_Inr
        split_on_spaces_def is_space_def)
  from getStoredTLEByIdx_dicts [of ?fs "''iss.tle''" ?lines split_on_spaces "[1, 0]"
      "map record_dict ?rs" 0, THEN conjunct1] f r
  have "getStoredTLEByIdx split_on_spaces ?fs ''iss.tle'' (Many [1, 0]) False
      = Inr (Some (map record_dict ?rs))"
    by blast
  then show ?thesis
    by (simp add: record_dict_def)
qed

text \<open>
  The claim as it was stated takes the value at each key to be the field sequence of the
  line. The lines \<^verbatim>\<open>A B\<close> and \<^verbatim>\<open>A  B\<close> have the same field sequence and different values
  at key 0, which hold the text of the line too. The claim also speaks of every record
  index: on a file of three lines the record 1 does not exist, and the call raises
  \<^verbatim>\<open>IndexError\<close>.
\<close>

theorem getStoredTLEByIdx_dicts_counterexample:
  "getStoredTLEByIdx split_on_spaces (one_file ''iss.tle'' [''A B\<newline>'', ''C\<newline>'', ''D\<newline>''])
     ''iss.tle'' (Single 0) False
   = Inr (Some [FieldDict [(0, \<lparr>fields_of = [''A'', ''B''], line_str = ''A B\<newline>''\<rparr>),
                           (1, \<lparr>fields_of = [''C''], line_str = ''C\<newline>''\<rparr>),
                           (2, \<lparr>fields_of = [''D''], line_str = ''D\<newline>''\<rparr>)]])
   \<and> getStoredTLEByIdx split_on_spaces (one_file ''iss.tle'' [''A  B\<newline>'', ''C\<newline>'', ''D\<newline>''])
     ''iss.tle'' (Single 0) False
   = Inr (Some [FieldDict [(0, \<lparr>fields_of = [''A'', ''B''], line_str = ''A  B\<newline>''\<rparr>),
                           (1, \<lparr>fields_of = [''C''], line_str = ''C\<newline>''\<rparr>),
                           (2, \<lparr>fields_of = [''D''], line_str = ''D\<newline>''\<rparr>)]])
   \<and> getStoredTLEByIdx split_on_spaces (one_file ''iss.tle'' [''A B\<newline>'', ''C\<newline>'', ''D\<newline>''])
     ''iss.tle'' (Single 1) False = Inl IndexError"
  by (simp add: getStoredTLEByIdx_def one_file_def path_exists_def readlines_def list_getitem_def
      and_then_Inl and_then_Inr split_on_spaces_def is_space_def)

section \<open>Properties of \<^verbatim>\<open>findClosestDatetimeIndices\<close>\<close>

lemma argmin_loop_first:
  assumes "best_i < length pre" and "pre ! best_i = best"
    and "\<forall>x \<in> set pre. best \<le> x" and "\<forall>x \<in> set (take best_i pre). best < x"
  shows "first_argmin (pre @ xs) (argmin_loop xs (length pre) best best_i)"
  using assms
proof (induction xs arbitrary: pre best best_i)
  case Nil
  then show ?case by (simp add: first_argmin_def)
next
  case (Cons x xs)
  show ?case
  proof (cases "x < best")
    case True
    have "first_argmin ((pre @ [x]) @ xs) (argmin_loop xs (length (pre @ [x])) x (length pre))"
    proof (rule Cons.IH)
      show "length pre < length (pre @ [x])" by simp
      show "(pre @ [x]) ! length pre = x" by simp
      show "\<forall>y \<in> set (pre @ [x]). x \<le> y" using True Cons.prems(3) by auto
      show "\<forall>y \<in> set (take (length pre) (pre @ [x])). x < y" using True Cons.prems(3) by auto
    qed
    with True show ?thesis by simp
  next
    case False
    have "first_argmin ((pre @ [x]) @ xs) (argmin_loop xs (length (pre @ [x])) best best_i)"
    proof (rule Cons.IH)
      show "best_i < length (pre @ [x])" using Cons.prems(1) by simp
      show "(pre @ [x]) ! best_i = best" using Cons.prems(1, 2) by (simp add: nth_append)
      show "\<forall>y \<in> set (pre @ [x]). best \<le> y" using False Cons.prems(3) by auto
      show "\<forall>y \<in> set (take best_i (pre @ [x])). best < y" using Cons.prems(1, 4) by simp
    qed
    with False show ?thesis by simp
  qed
qed

lemma np_argmin_first:
  assumes "xs \<noteq> []"
  shows "\<exists>j. np_argmin xs = Inr j \<and> first_argmin xs j"
proof -
  from assms obtain x rest where xs: "xs = x # rest" by (cases xs) auto
  have "first_argmin ([x] @ rest) (argmin_loop rest (length [x]) x 0)"
    by (rule argmin_loop_first) simp_all
  with xs show ?thesis by (simp add: np_argmin_def)
qed

lemma closest_loop_first:
  assumes "source_arr_fl \<noteq> []"
  shows "\<exists>out. closest_loop source_arr_fl test_arr_fl idx_arr = Inr (idx_arr @ out)
     \<and> length out = length test_arr_fl
     \<and> (\<forall>i < length test_arr_fl. first_argmin (abs_diff source_arr_fl (test_arr_fl ! i)) (out ! i))"
proof (induction test_arr_fl arbitrary: idx_arr)
  case Nil
  show ?case by simp
next
  case (Cons t rest)
  from assms have "abs_diff source_arr_fl t \<noteq> []" by (simp add: abs_diff_def)
  from np_argmin_first [OF this] obtain j
    where j: "np_argmin (abs_diff source_arr_fl t) = Inr j"
      and fj: "first_argmin (abs_diff source_arr_fl t) j"
    by blast
  from Cons.IH [of "idx_arr @ [j]"] obtain out
    where o: "closest_loop source_arr_fl rest (idx_arr @ [j]) = Inr ((idx_arr @ [j]) @ out)"
      and l: "length out = length rest"
      and f: "\<forall>i < length rest. first_argmin (abs_diff source_arr_fl (rest ! i)) (out ! i)"
    by blast
  have "closest_loop source_arr_fl (t # rest) idx_arr = Inr (idx_arr @ (j # out))"
    using j o by (simp add: and_then_def)
  moreover have "length (j # out) = length (t # rest)"
    using l by simp
  moreover have "\<forall>i < length (t # rest).
      first_argmin (abs_diff source_arr_fl ((t # rest) ! i)) ((j # out) ! i)"
  proof (intro allI impI)
    fix i
    assume "i < length (t # rest)"
    then show "first_argmin (abs_diff source_arr_fl ((t # rest) ! i)) ((j # out) ! i)"
      using fj f by (cases i) simp_all
  qed
  ultimately show ?case by blast
qed

lemma map_results_Inr_iff: "map_results f xs = Inr ys \<longleftrightarrow> map f xs = map Inr ys"
proof (induction xs arbitrary: ys)
  case Nil
  then show ?case by auto
next
  case (Cons x xs)
  show ?case
  proof (cases "f x")
    case (Inl e)
    then show ?thesis by (cases ys) (simp_all add: and_then_def)
  next
    case fx: (Inr y)
    show ?thesis
    proof (cases "map_results f xs")
      case (Inl e)
      with Cons.IH have "\<And>zs. map f xs \<noteq> map Inr zs" by simp
      with fx Inl show ?thesis by (cases ys) (simp_all add: and_then_def)
    next
      case (Inr zs)
      have m: "map f xs = map Inr zs"
        using Cons.IH [of zs] Inr by blast
      with fx Inr show ?thesis by (cases ys) (auto simp: and_then_def inj_map_eq_map)
    qed
  qed
qed

lemma np_vectorize_Inr_iff:
  "np_vectorize f arr = Inr ys \<longleftrightarrow> arr \<noteq> [] \<and> map f arr = map Inr ys"
proof (cases arr)
  case Nil
  then show ?thesis by (simp add: np_vectorize_def)
next
  case (Cons x xs)
  show ?thesis
  proof (cases "f x")
    case (Inl e)
    with Cons show ?thesis by (cases ys) (simp_all add: np_vectorize_def and_then_def)
  next
    case (Inr y)
    with Cons have "np_vectorize f arr = map_results f arr"
      by (simp add: np_vectorize_def and_then_def)
    with Cons show ?thesis by (simp only: map_results_Inr_iff) simp
  qed
qed

lemma findClosestDatetimeIndices_Inr:
  assumes "findClosestDatetimeIndices timestamp test_arr source_arr = Inr idx_arr"
  shows "test_arr \<noteq> [] \<and> source_arr \<noteq> []
     \<and> (\<forall>x \<in> set test_arr \<union> set source_arr. \<forall>e. timestamp x \<noteq> Inl e)"
proof -
  from assms obtain ts ss
    where "np_vectorize timestamp test_arr = Inr ts" "np_vectorize timestamp source_arr = Inr ss"
    by (auto simp: findClosestDatetimeIndices_def and_then_Inr_iff)
  then have t: "test_arr \<noteq> []" "map timestamp test_arr = map Inr ts"
    and s: "source_arr \<noteq> []" "map timestamp source_arr = map Inr ss"
    by (simp_all add: np_vectorize_Inr_iff)
  have "\<forall>e. timestamp x \<noteq> Inl e" if "x \<in> set test_arr" for x
  proof -
    from that have "timestamp x \<in> set (map timestamp test_arr)" by simp
    with t(2) show ?thesis by auto
  qed
  moreover have "\<forall>e. timestamp x \<noteq> Inl e" if "x \<in> set source_arr" for x
  proof -
    from that have "timestamp x \<in> set (map timestamp source_arr)" by simp
    with s(2) show ?thesis by auto
  qed
  ultimately show ?thesis using t(1) s(1) by auto
qed

text \<open>
  Claim C4, amended. For two sequences of datetimes that are both non-empty and whose
  elements all have a timestamp, \<open>findClosestDatetimeIndices\<close> returns a sequence as long
  as the queries whose \<open>i\<close>-th element is the first position of a smallest element among
  the absolute differences, each computed in binary64, of the timestamps of the reference
  elements and the timestamp of the \<open>i\<close>-th query. If one of the two sequences is empty
  or \<^verbatim>\<open>timestamp()\<close> raises on one of the elements, the call raises; the exception is
  \<^verbatim>\<open>ValueError\<close> if the queries are empty, or if they all have a timestamp and the
  reference is empty.
\<close>

theorem findClosestDatetimeIndices_first_argmin:
  "(test_arr \<noteq> [] \<and> source_arr \<noteq> []
      \<and> map timestamp test_arr = map Inr test_arr_fl
      \<and> map timestamp source_arr = map Inr source_arr_fl \<longrightarrow>
      (\<exists>idx_arr. findClosestDatetimeIndices timestamp test_arr source_arr = Inr idx_arr
         \<and> length idx_arr = length test_arr
         \<and> (\<forall>i < length test_arr.
               first_argmin (map (\<lambda>s. \<bar>fl (s - test_arr_fl ! i)\<bar>) source_arr_fl)
                 (idx_arr ! i))))
   \<and> (test_arr = [] \<or> source_arr = []
        \<or> (\<exists>x \<in> set test_arr \<union> set source_arr. \<exists>e. timestamp x = Inl e) \<longrightarrow>
        (\<exists>e. findClosestDatetimeIndices timestamp test_arr source_arr = Inl e))
   \<and> (test_arr = [] \<longrightarrow>
        findClosestDatetimeIndices timestamp test_arr source_arr = Inl ValueError)
   \<and> (test_arr \<noteq> [] \<and> map timestamp test_arr = map Inr test_arr_fl \<and> source_arr = [] \<longrightarrow>
        findClosestDatetimeIndices timestamp test_arr source_arr = Inl ValueError)"
proof (intro conjI impI)
  assume a: "test_arr \<noteq> [] \<and> source_arr \<noteq> []
      \<and> map timestamp test_arr = map Inr test_arr_fl
      \<and> map timestamp source_arr = map Inr source_arr_fl"
  then have t: "np_vectorize timestamp test_arr = Inr test_arr_fl"
    and s: "np_vectorize timestamp source_arr = Inr source_arr_fl"
    by (simp_all add: np_vectorize_Inr_iff)
  from a have "length (map timestamp source_arr) = length (map Inr source_arr_fl :: (error + rat) list)"
    by simp
  with a have ne: "source_arr_fl \<noteq> []" by auto
  from a have "length (map timestamp test_arr) = length (map Inr test_arr_fl :: (error + rat) list)"
    by simp
  then have lt: "length test_arr_fl = length test_arr" by simp
  from closest_loop_first [OF ne, of test_arr_fl "[]"] obtain out
    where o: "closest_loop source_arr_fl test_arr_fl [] = Inr out"
      and l: "length out = length test_arr_fl"
      and f: "\<forall>i < length test_arr_fl.
        first_argmin (abs_diff source_arr_fl (test_arr_fl ! i)) (out ! i)"
    by auto
  have "findClosestDatetimeIndices timestamp test_arr source_arr = Inr out"
    using t s o by (simp add: findClosestDatetimeIndices_def and_then_def)
  moreover have "\<forall>i < length test_arr.
      first_argmin (map (\<lambda>s. \<bar>fl (s - test_arr_fl ! i)\<bar>) source_arr_fl) (out ! i)"
    using f lt by (simp add: abs_diff_def)
  ultimately show "\<exists>idx_arr. findClosestDatetimeIndices timestamp test_arr source_arr = Inr idx_arr
         \<and> length idx_arr = length test_arr
         \<and> (\<forall>i < length test_arr.
               first_argmin (map (\<lambda>s. \<bar>fl (s - test_arr_fl ! i)\<bar>) source_arr_fl)
                 (idx_arr ! i))"
    using l lt by auto
next
  assume a: "test_arr = [] \<or> source_arr = []
        \<or> (\<exists>x \<in> set test_arr \<union> set source_arr. \<exists>e. timestamp x = Inl e)"
  show "\<exists>e. findClosestDatetimeIndices timestamp test_arr source_arr = Inl e"
  proof (cases "findClosestDatetimeIndices timestamp test_arr source_arr")
    case (Inl e)
    then show ?thesis by blast
  next
    case (Inr idx_arr)
    from findClosestDatetimeIndices_Inr [OF this] a show ?thesis by blast
  qed
next
  assume "test_arr = []"
  then show "findClosestDatetimeIndices timestamp test_arr source_arr = Inl ValueError"
    by (simp add: findClosestDatetimeIndices_def np_vectorize_def and_then_def)
next
  assume a: "test_arr \<noteq> [] \<and> map timestamp test_arr = map Inr test_arr_fl \<and> source_arr = []"
  then have "np_vectorize timestamp test_arr = Inr test_arr_fl"
    by (simp add: np_vectorize_Inr_iff)
  with a show "findClosestDatetimeIndices timestamp test_arr source_arr = Inl ValueError"
    by (simp add: findClosestDatetimeIndices_def np_vectorize_def and_then_def)
qed

theorem findClosestDatetimeIndices_first_argmin_witness:
  "[5, 7, 100, - 3] \<noteq> ([] :: rat list) \<and> [0, 4, 6, 10, 10, 200] \<noteq> ([] :: rat list)
   \<and> (\<exists>idx_arr.
         findClosestDatetimeIndices Inr [5, 7, 100, - 3] [0, 4, 6, 10, 10, 200] = Inr idx_arr
         \<and> length idx_arr = length [5, 7, 100, - 3 :: rat]
         \<and> (\<forall>i < length [5, 7, 100, - 3 :: rat].
               first_argmin
                 (map (\<lambda>s. \<bar>fl (s - [5, 7, 100, - 3] ! i)\<bar>) [0, 4, 6, 10, 10, 200])
                 (idx_arr ! i)))
   \<and> findClosestDatetimeIndices Inr [5, 7, 100, - 3] [0, 4, 6, 10, 10, 200]
       = Inr [1, 2, 3, 0]
   \<and> (\<exists>e. findClosestDatetimeIndices (\<lambda>x. if x < 0 then Inl OverflowError else Inr x)
             [5] [4, - 1 :: rat] = Inl e)"
proof -
  have v: "findClosestDatetimeIndices Inr [5, 7, 100, - 3] [0, 4, 6, 10, 10, 200]
       = Inr [1, 2, 3, 0]"
    by code_simp
  from findClosestDatetimeIndices_first_argmin
         [where test_arr = "[5, 7, 100, - 3]" and source_arr = "[0, 4, 6, 10, 10, 200]"
            and timestamp = Inr and test_arr_fl = "[5, 7, 100, - 3]"
            and source_arr_fl = "[0, 4, 6, 10, 10, 200]", THEN conjunct1]
  have a: "\<exists>idx_arr.
         findClosestDatetimeIndices Inr [5, 7, 100, - 3] [0, 4, 6, 10, 10, 200] = Inr idx_arr
         \<and> length idx_arr = length [5, 7, 100, - 3 :: rat]
         \<and> (\<forall>i < length [5, 7, 100, - 3 :: rat].
               first_argmin
                 (map (\<lambda>s. \<bar>fl (s - [5, 7, 100, - 3] ! i)\<bar>) [0, 4, 6, 10, 10, 200])
                 (idx_arr ! i))"
    by simp
  from findClosestDatetimeIndices_first_argmin
         [where test_arr = "[5]" and source_arr = "[4, - 1]"
            and timestamp = "\<lambda>x. if x < 0 then Inl OverflowError else Inr x",
          THEN conjunct2, THEN conjunct1]
  have b: "\<exists>e. findClosestDatetimeIndices (\<lambda>x. if x < 0 then Inl OverflowError else Inr x)
             [5] [4, - 1 :: rat] = Inl e"
    by simp
  from v a b show ?thesis by simp
qed

text \<open>
  The claim as it was stated asks only for a non-empty reference. With no query the call
  raises \<^verbatim>\<open>ValueError\<close> instead of returning the empty sequence. And the differences that
  are compared are those of the binary64 timestamps: the query 2021-01-01T00:00:00.000003
  UTC is one microsecond away from both references 00:00:00.000002 and 00:00:00.000004,
  and the index returned is 1, not the lowest.
\<close>

theorem findClosestDatetimeIndices_counterexample:
  "findClosestDatetimeIndices (\<lambda>x. Inr (utc_timestamp x)) [] [january_first 2021]
     = Inl ValueError
   \<and> wall_microseconds ((january_first 2021)\<lparr>microsecond := 3\<rparr>)
       - wall_microseconds ((january_first 2021)\<lparr>microsecond := 2\<rparr>) = 1
   \<and> wall_microseconds ((january_first 2021)\<lparr>microsecond := 4\<rparr>)
       - wall_microseconds ((january_first 2021)\<lparr>microsecond := 3\<rparr>) = 1
   \<and> findClosestDatetimeIndices (\<lambda>x. Inr (utc_timestamp x))
        [(january_first 2021)\<lparr>microsecond := 3\<rparr>]
        [(january_first 2021)\<lparr>microsecond := 2\<rparr>, (january_first 2021)\<lparr>microsecond := 4\<rparr>]
      = Inr [1]"
proof (intro conjI)
  show "findClosestDatetimeIndices (\<lambda>x. Inr (utc_timestamp x)) [] [january_first 2021]
     = Inl ValueError"
    by (simp add: findClosestDatetimeIndices_def np_vectorize_def and_then_def)
  show "wall_microseconds ((january_first 2021)\<lparr>microsecond := 3\<rparr>)
       - wall_microseconds ((january_first 2021)\<lparr>microsecond := 2\<rparr>) = 1"
    by (simp add: wall_microseconds_def january_first_def toordinal_def)
  show "wall_microseconds ((january_first 2021)\<lparr>microsecond := 4\<rparr>)
       - wall_microseconds ((january_first 2021)\<lparr>microsecond := 3\<rparr>) = 1"
    by (simp add: wall_microseconds_def january_first_def toordinal_def)
  show "findClosestDatetimeIndices (\<lambda>x. Inr (utc_timestamp x))
        [(january_first 2021)\<lparr>microsecond := 3\<rparr>]
        [(january_first 2021)\<lparr>microsecond := 2\<rparr>, (january_first 2021)\<lparr>microsecond := 4\<rparr>]
      = Inr [1]"
    by code_simp
qed

section \<open>A property of \<^verbatim>\<open>datetime2TLEepoch\<close>\<close>

lemma fl_millionth: "fl (1 / 1000000) = 4722366482869645 / 2 ^ 72"
  by code_simp

lemma epoch2datetime_21001e_06:
  "epoch2datetime ''21001e-06''
   = Inr \<lparr>year = 2020, month = 12, day = 31, hour = 0, minute = 0, second = 0,
          microsecond = 86400, tzinfo = Some UTC\<rparr>"
proof -
  have y: "py_int (take 2 ''21001e-06'') = Inr 21"
    by (simp add: parse_defs)
  have f: "py_float (drop 2 ''21001e-06'') = Inr (Finite (fl (1 / 1000000)))"
    by (simp add: parse_defs fl_millionth)
  have r: "and_then (timedelta_days_float (Finite (fl (1 / 1000000)))) (\<lambda>delta.
     and_then (add_datetime_timedelta (january_first 2021) delta 1) (\<lambda>shifted.
     add_datetime_timedelta shifted \<lparr>days = 1, seconds = 0, microseconds = 0\<rparr> (- 1)))
   = Inr \<lparr>year = 2020, month = 12, day = 31, hour = 0, minute = 0, second = 0,
          microsecond = 86400, tzinfo = Some UTC\<rparr>"
    by code_simp
  show ?thesis
    unfolding epoch2datetime_unfold [OF y f] by (simp add: pivot_year_def r)
qed

text \<open>
  Claim C3. The fraction of the day is turned into text by \<^verbatim>\<open>str\<close>, which writes a
  float below \<open>10\<^sup>-\<^sup>4\<close> with an exponent, and the character that is dropped is then the
  first digit and not a zero before the decimal point. For 2021-01-01T00:00:00.086400 the
  fraction is \<open>10\<^sup>-\<^sup>6\<close>, its text is \<^verbatim>\<open>1e-06\<close>, and the result is \<^verbatim>\<open>21001e-06\<close>: the part
  after the day of the year does not begin at a decimal point. Read back by
  \<open>epoch2datetime\<close>, this string is the same time of day one day earlier.
\<close>

theorem datetime2TLEepoch_exponent_form:
  "datetime2TLEepoch
     \<lparr>year = 2021, month = 1, day = 1, hour = 0, minute = 0, second = 0, microsecond = 86400,
        tzinfo = Some UTC\<rparr>
   = Inr ''21001e-06''
   \<and> epoch2datetime ''21001e-06''
   = Inr \<lparr>year = 2020, month = 12, day = 31, hour = 0, minute = 0, second = 0,
          microsecond = 86400, tzinfo = Some UTC\<rparr>"
proof
  show "datetime2TLEepoch
     \<lparr>year = 2021, month = 1, day = 1, hour = 0, minute = 0, second = 0, microsecond = 86400,
        tzinfo = Some UTC\<rparr>
   = Inr ''21001e-06''"
    by code_simp
  show "epoch2datetime ''21001e-06''
   = Inr \<lparr>year = 2020, month = 12, day = 31, hour = 0, minute = 0, second = 0,
          microsecond = 86400, tzinfo = Some UTC\<rparr>"
    by (rule epoch2datetime_21001e_06)
qed

end
